theory Spec2Isabelle
  imports Complex_Main
begin

section \<open>Shared types (types/session.ts, the Prisma schema)\<close>

text \<open>
  The status enum of the durable store (the \<^verbatim>\<open>SessionStatus\<close> type of the SQL
  migration) and the recording source. JavaScript numbers that the code only stores and
  compares (time stamps, confidence scores) are modelled as \<^typ>\<open>real\<close>; sequence
  numbers are whole numbers.
\<close>

datatype SessionStatus = PENDING | RECORDING | PAUSED | PROCESSING | COMPLETED | FAILED

datatype RecordingSource = MIC | TAB

text \<open>\<^verbatim>\<open>TranscriptUpdate\<close>: the payload of a \<^verbatim>\<open>transcription:update\<close> event.\<close>

record TranscriptUpdate =
  u_sessionId :: string
  u_sequence :: int
  u_text :: string
  u_speakerTag :: string
  u_confidence :: "real option"

text \<open>\<^verbatim>\<open>SessionSummary\<close> and \<^verbatim>\<open>GeminiSummary\<close> are the same three-field object.\<close>

record GeminiSummary =
  keyPoints :: string
  actionItems :: string
  decisions :: string

section \<open>The client recorder machine (hooks/useRecorderMachine.ts)\<close>

record RecorderContext =
  ctx_sessionId :: "string option"
  ctx_source :: RecordingSource
  ctx_transcript :: "TranscriptUpdate list"
  ctx_summary :: "GeminiSummary option"
  ctx_error :: "string option"

datatype RecorderEvent =
    START string RecordingSource
  | PAUSE
  | RESUME
  | STOP
  | RESET
  | TRANSCRIPT TranscriptUpdate
  | SUMMARY GeminiSummary
  | ERROR string
  | SET_SOURCE RecordingSource

datatype RecorderState = idle | recording | paused | processing | completed | failed

definition defaultContext :: RecorderContext where
  "defaultContext =
     \<lparr>ctx_sessionId = None, ctx_source = MIC, ctx_transcript = [],
      ctx_summary = None, ctx_error = None\<rparr>"

text \<open>
  \<^verbatim>\<open>Array.prototype.findIndex\<close>: the index of the first element that satisfies the
  predicate, and \<open>-1\<close> when there is none.
\<close>

fun findIndex :: "('a \<Rightarrow> bool) \<Rightarrow> 'a list \<Rightarrow> int" where
  "findIndex P [] = -1"
| "findIndex P (x # xs) =
     (if P x then 0 else (let i = findIndex P xs in if i < 0 then -1 else i + 1))"

text \<open>
  The \<^verbatim>\<open>transcript\<close> assigner of the \<^verbatim>\<open>TRANSCRIPT\<close> action. The copy
  \<^verbatim>\<open>[...context.transcript]\<close> written at \<^verbatim>\<open>existingIndex\<close> is a list update; the
  comparator \<^verbatim>\<open>a.sequence - b.sequence\<close> of \<^verbatim>\<open>Array.prototype.sort\<close>, which is
  stable, is the stable sort by the key \<^const>\<open>u_sequence\<close>.
\<close>

definition transcript_action :: "TranscriptUpdate list \<Rightarrow> TranscriptUpdate \<Rightarrow> TranscriptUpdate list" where
  "transcript_action transcript update =
     (let existingIndex = findIndex (\<lambda>chunk. u_sequence chunk = u_sequence update) transcript
      in if existingIndex \<ge> 0 then transcript[nat existingIndex := update]
         else sort_key u_sequence (transcript @ [update]))"

text \<open>
  One step of the machine. An event with no handler in the current state leaves state
  and context as they are.
\<close>

fun recorderMachine :: "RecorderState \<times> RecorderContext \<Rightarrow> RecorderEvent \<Rightarrow> RecorderState \<times> RecorderContext" where
  "recorderMachine (idle, c) (SET_SOURCE src) = (idle, c\<lparr>ctx_source := src\<rparr>)"
| "recorderMachine (idle, c) (START sid src) =
     (recording, c\<lparr>ctx_sessionId := Some sid, ctx_source := src, ctx_transcript := [],
                   ctx_summary := None, ctx_error := None\<rparr>)"
| "recorderMachine (recording, c) (TRANSCRIPT update) =
     (recording, c\<lparr>ctx_transcript := transcript_action (ctx_transcript c) update\<rparr>)"
| "recorderMachine (recording, c) PAUSE = (paused, c)"
| "recorderMachine (recording, c) STOP = (processing, c)"
| "recorderMachine (recording, c) (ERROR e) = (failed, c\<lparr>ctx_error := Some e\<rparr>)"
| "recorderMachine (paused, c) RESUME = (recording, c)"
| "recorderMachine (paused, c) STOP = (processing, c)"
| "recorderMachine (paused, c) (ERROR e) = (failed, c\<lparr>ctx_error := Some e\<rparr>)"
| "recorderMachine (processing, c) (SUMMARY s) = (completed, c\<lparr>ctx_summary := Some s\<rparr>)"
| "recorderMachine (processing, c) (ERROR e) = (failed, c\<lparr>ctx_error := Some e\<rparr>)"
| "recorderMachine (completed, c) RESET = (idle, defaultContext)"
| "recorderMachine (failed, c) RESET = (idle, defaultContext)"
| "recorderMachine (st, c) _ = (st, c)"

text \<open>The machine run from its initial configuration over a list of events.\<close>

definition recorder_run :: "RecorderEvent list \<Rightarrow> RecorderState \<times> RecorderContext" where
  "recorder_run evs = foldl recorderMachine (idle, defaultContext) evs"

text \<open>The invariant of the transcript list: ascending sequence numbers, none twice.\<close>

definition transcript_ordered :: "TranscriptUpdate list \<Rightarrow> bool" where
  "transcript_ordered transcript \<longleftrightarrow>
     sorted (map u_sequence transcript) \<and> distinct (map u_sequence transcript)"

section \<open>The generative-AI gateway (lib/gemini.ts)\<close>

text \<open>
  A thrown JavaScript \<^verbatim>\<open>Error\<close> is a value carrying its message. The external model
  is not part of the program: one call of \<^verbatim>\<open>generateContent\<close> either throws or
  responds with a text, and the models enter the gateway's functions as parameters
  (\<open>None\<close> when no API key is configured, so that no model object exists).
\<close>

datatype js_error = Error string

datatype gen_outcome = Throws js_error | Responds string

record Transcription =
  t_text :: string
  t_speakerTag :: string
  t_confidence :: "real option"

definition nl :: char where
  "nl = CHR 0x0A"

text \<open>\<^verbatim>\<open>String.prototype.indexOf\<close> and \<^verbatim>\<open>lastIndexOf\<close> for one character.\<close>

definition indexOf :: "char \<Rightarrow> string \<Rightarrow> int" where
  "indexOf ch s = findIndex (\<lambda>c. c = ch) s"

definition lastIndexOf :: "char \<Rightarrow> string \<Rightarrow> int" where
  "lastIndexOf ch s =
     (let i = findIndex (\<lambda>c. c = ch) (rev s)
      in if i < 0 then -1 else int (length s) - 1 - i)"

text \<open>
  \<^verbatim>\<open>String.prototype.slice(start, end)\<close>: a negative index counts from the end, both
  indices are clamped to the string, and an empty range gives the empty string.
\<close>

definition slice :: "string \<Rightarrow> int \<Rightarrow> int \<Rightarrow> string" where
  "slice s start end =
     (let len = int (length s);
          from = (if start < 0 then max (len + start) 0 else min start len);
          to = (if end < 0 then max (len + end) 0 else min end len)
      in take (nat (to - from)) (drop (nat from) s))"

text \<open>The prompt of \<^verbatim>\<open>summarizeTranscript\<close>: a fixed head followed by the transcript.\<close>

definition summary_prompt_head :: string where
  "summary_prompt_head =
     ''Please analyze the following meeting transcript and provide a structured summary with the following sections:'' @ [nl] @
     ''  - Key points discussed'' @ [nl] @
     ''  - Action items with owners (if any)'' @ [nl] @
     ''  - Decisions made'' @ [nl] @ [nl] @
     ''Format the response as a JSON object with these exact keys:'' @ [nl] @
     ''{'' @ [nl] @
     ''  '' @ [CHR 0x22] @ ''keyPoints'' @ [CHR 0x22] @ '': '' @ [CHR 0x22] @ ''...'' @ [CHR 0x22] @ '','' @ [nl] @
     ''  '' @ [CHR 0x22] @ ''actionItems'' @ [CHR 0x22] @ '': '' @ [CHR 0x22] @ ''...'' @ [CHR 0x22] @ '','' @ [nl] @
     ''  '' @ [CHR 0x22] @ ''decisions'' @ [CHR 0x22] @ '': '' @ [CHR 0x22] @ ''...'' @ [CHR 0x22] @ [nl] @
     ''}'' @ [nl] @ [nl] @
     ''Transcript:'' @ [nl]"

definition summary_prompt :: "string \<Rightarrow> string" where
  "summary_prompt transcript = summary_prompt_head @ transcript"

text \<open>
  \<^verbatim>\<open>summarizeTranscript\<close>. The guard on the missing model and the call of the model
  stand before the \<^verbatim>\<open>try\<close>, so both throw to the caller; only \<^verbatim>\<open>JSON.parse\<close> is
  inside it. \<open>JSON_parse\<close> is the library's parser read at the type the source casts its
  result to (\<^verbatim>\<open>as GeminiSummary\<close>): \<open>None\<close> when it throws.
\<close>

definition summarizeTranscript ::
  "(string \<Rightarrow> GeminiSummary option) \<Rightarrow> (string \<Rightarrow> gen_outcome) option \<Rightarrow> string
    \<Rightarrow> js_error + GeminiSummary" where
  "summarizeTranscript JSON_parse summaryModel transcript =
     (case summaryModel of
        None \<Rightarrow> Inl (Error ''Gemini API key not configured'')
      | Some generateContent \<Rightarrow>
          (case generateContent (summary_prompt transcript) of
             Throws e \<Rightarrow> Inl e
           | Responds text \<Rightarrow>
               (let startIdx = indexOf CHR ''{'' text;
                    endIdx = lastIndexOf CHR ''}'' text + 1;
                    jsonStr = slice text startIdx endIdx
                in case JSON_parse jsonStr of
                     Some summary \<Rightarrow> Inr summary
                   | None \<Rightarrow>
                       Inr \<lparr>keyPoints = text,
                            actionItems = ''Could not extract action items'',
                            decisions = ''Could not extract decisions''\<rparr>)))"

text \<open>
  \<^verbatim>\<open>transcribeAudio\<close>. The guard on the missing model throws; everything after it is
  inside the \<^verbatim>\<open>try\<close>, whose \<^verbatim>\<open>catch\<close> returns the empty transcription.
  \<open>speakerMatch\<close> is \<^verbatim>\<open>String.prototype.match\<close> with the source's regular expression
  (the two groups on a match) and \<open>trim\<close> is \<^verbatim>\<open>String.prototype.trim\<close>; the model
  is called with the audio data and the mime type.
\<close>

definition transcribeAudio ::
  "(string \<Rightarrow> (string \<times> string) option) \<Rightarrow> (string \<Rightarrow> string)
    \<Rightarrow> (string \<Rightarrow> string \<Rightarrow> gen_outcome) option \<Rightarrow> string \<Rightarrow> string
    \<Rightarrow> js_error + Transcription" where
  "transcribeAudio speakerMatch trim transcriptModel audioBase64 mimeType =
     (case transcriptModel of
        None \<Rightarrow> Inl (Error ''Gemini client not configured'')
      | Some generateContent \<Rightarrow>
          (case generateContent audioBase64 (if mimeType = [] then ''audio/webm'' else mimeType) of
             Throws e \<Rightarrow>
               Inr \<lparr>t_text = [], t_speakerTag = ''speaker'', t_confidence = Some 0\<rparr>
           | Responds text \<Rightarrow>
               (case speakerMatch text of
                  Some (tag, body) \<Rightarrow>
                    Inr \<lparr>t_text = trim body, t_speakerTag = trim tag,
                         t_confidence = Some 0.85\<rparr>
                | None \<Rightarrow>
                    Inr \<lparr>t_text = trim text, t_speakerTag = ''speaker'',
                         t_confidence = Some 0.8\<rparr>)))"

section \<open>The socket server (server/index.ts)\<close>

subsection \<open>Payloads and the durable store\<close>

text \<open>
  The payloads are the results of the two schemas' \<^verbatim>\<open>safeParse\<close>: a handler receives
  either the parse error's message or the parsed data, in which a sequence number is a
  non-negative integer and the speaker tag has its default filled in.
\<close>

record StartPayload =
  sp_sessionId :: string
  userId :: string
  userEmail :: string
  source :: RecordingSource

record ChunkPayload =
  sessionId :: string
  sequence :: nat
  startedAt :: real
  endedAt :: real
  speakerTag :: string
  audio :: string
  chunkText :: "string option"
  confidence :: "real option"

text \<open>
  The rows of the store, with the columns the handlers write. \<^verbatim>\<open>Session\<close> rows are
  found by their id, \<^verbatim>\<open>User\<close> rows are pairs of id and e-mail address; the two tables
  with a unique index that the finalization writes are lists of rows.
\<close>

record SessionRow =
  s_userId :: string
  s_status :: SessionStatus
  s_source :: RecordingSource
  s_endedAt :: "real option"

record ChunkRow =
  r_sessionId :: string
  r_sequence :: nat
  r_text :: string
  r_speakerTag :: string
  r_startedAt :: real
  r_endedAt :: real
  r_confidence :: "real option"

record SummaryRow =
  m_sessionId :: string
  m_summary :: GeminiSummary

record Server =
  buffer :: "string \<rightharpoonup> ChunkPayload list"
  users :: "(string \<times> string) list"
  sessions :: "string \<rightharpoonup> SessionRow"
  transcriptChunks :: "ChunkRow list"
  summaries :: "SummaryRow list"

text \<open>
  What a handler sends: to the calling socket (\<^verbatim>\<open>socket.emit\<close>) or to the room of a
  session (\<^verbatim>\<open>io.to(sessionId).emit\<close>).
\<close>

datatype target = Caller | Room string

datatype emitted_event =
    session_error string "js_error option"
  | session_ack string SessionStatus
  | transcription_update TranscriptUpdate
  | session_status SessionStatus "GeminiSummary option"

text \<open>
  The outcome of one handler: the server afterwards, the events sent in order, and the
  error of the handler's rejected promise when an exception left it.
\<close>

record Outcome =
  server :: Server
  emitted :: "(target \<times> emitted_event) list"
  unhandled :: "js_error option"

text \<open>
  What the handlers depend on outside the program: the two gateway functions with their
  models fixed, the step of the finalization transaction that the store fails at
  (\<open>Some k\<close>: the write number \<open>k\<close>, counted from \<open>0\<close>, or the commit when \<open>k\<close> is the
  number of writes; \<open>None\<close>, or a larger \<open>k\<close>: no failure), and the clock. Outside the transaction the
  store is taken to be reachable.
\<close>

record Env =
  transcribe :: "string \<Rightarrow> string \<Rightarrow> js_error + Transcription"
  summarize :: "string \<Rightarrow> js_error + GeminiSummary"
  fault :: "nat option"
  now :: real

subsection \<open>Store operations\<close>

text \<open>
  \<^verbatim>\<open>prisma.user.upsert\<close> by id; the e-mail column is unique, so the write throws when
  another user holds the address.
\<close>

definition user_upsert :: "(string \<times> string) list \<Rightarrow> string \<Rightarrow> string \<Rightarrow> js_error + (string \<times> string) list" where
  "user_upsert us uid email =
     (if list_ex (\<lambda>(i, e). i \<noteq> uid \<and> e = email) us
      then Inl (Error ''Unique constraint failed on the fields: (email)'')
      else if list_ex (\<lambda>(i, e). i = uid) us
      then Inr (map (\<lambda>(i, e). if i = uid then (i, email) else (i, e)) us)
      else Inr (us @ [(uid, email)]))"

text \<open>\<^verbatim>\<open>prisma.session.update\<close>: throws when there is no row with the id.\<close>

definition session_update :: "Server \<Rightarrow> string \<Rightarrow> (SessionRow \<Rightarrow> SessionRow) \<Rightarrow> js_error + Server" where
  "session_update s sid f =
     (case sessions s sid of
        None \<Rightarrow> Inl (Error ''Record to update not found'')
      | Some row \<Rightarrow> Inr (s\<lparr>sessions := (sessions s)(sid \<mapsto> f row)\<rparr>))"

text \<open>
  \<^verbatim>\<open>tx.transcriptChunk.upsert\<close> on the key \<^verbatim>\<open>sessionId_sequence\<close>. The update
  writes text, speaker tag and confidence (an undefined confidence leaves the column as
  it is) and keeps the time range of the row; the create writes all columns.
\<close>

definition same_key :: "ChunkPayload \<Rightarrow> ChunkRow \<Rightarrow> bool" where
  "same_key chunk row \<longleftrightarrow> r_sessionId row = sessionId chunk \<and> r_sequence row = sequence chunk"

text \<open>The key of the unique index, read off a row and off a buffered chunk.\<close>

definition row_key :: "ChunkRow \<Rightarrow> string \<times> nat" where
  "row_key row = (r_sessionId row, r_sequence row)"

definition chunk_key :: "ChunkPayload \<Rightarrow> string \<times> nat" where
  "chunk_key chunk = (sessionId chunk, sequence chunk)"

definition text_or_empty :: "string option \<Rightarrow> string" where
  "text_or_empty t = (case t of None \<Rightarrow> [] | Some x \<Rightarrow> x)"

definition chunk_update :: "ChunkPayload \<Rightarrow> ChunkRow \<Rightarrow> ChunkRow" where
  "chunk_update chunk row =
     row\<lparr>r_text := text_or_empty (chunkText chunk),
         r_speakerTag := speakerTag chunk,
         r_confidence := (case confidence chunk of None \<Rightarrow> r_confidence row | Some c \<Rightarrow> Some c)\<rparr>"

definition chunk_create :: "ChunkPayload \<Rightarrow> ChunkRow" where
  "chunk_create chunk =
     \<lparr>r_sessionId = sessionId chunk, r_sequence = sequence chunk,
      r_text = text_or_empty (chunkText chunk), r_speakerTag = speakerTag chunk,
      r_startedAt = startedAt chunk, r_endedAt = endedAt chunk,
      r_confidence = confidence chunk\<rparr>"

definition upsert_chunk :: "ChunkRow list \<Rightarrow> ChunkPayload \<Rightarrow> ChunkRow list" where
  "upsert_chunk rows chunk =
     (if list_ex (same_key chunk) rows
      then map (\<lambda>row. if same_key chunk row then chunk_update chunk row else row) rows
      else rows @ [chunk_create chunk])"

text \<open>\<^verbatim>\<open>tx.summary.upsert\<close> on the key \<^verbatim>\<open>sessionId\<close>.\<close>

definition upsert_summary :: "SummaryRow list \<Rightarrow> string \<Rightarrow> GeminiSummary \<Rightarrow> SummaryRow list" where
  "upsert_summary rows sid summary =
     (if list_ex (\<lambda>row. m_sessionId row = sid) rows
      then map (\<lambda>row. if m_sessionId row = sid then row\<lparr>m_summary := summary\<rparr> else row) rows
      else rows @ [\<lparr>m_sessionId = sid, m_summary = summary\<rparr>])"

text \<open>
  \<^verbatim>\<open>prisma.$transaction\<close>: the writes of the callback run in order on the
  transaction's view of the two tables; when a step throws the view is dropped, and the
  view replaces the tables only when the commit has succeeded.
\<close>

datatype tx_write = UpsertChunk ChunkPayload | UpsertSummary string GeminiSummary

fun apply_write :: "ChunkRow list \<times> SummaryRow list \<Rightarrow> tx_write \<Rightarrow> ChunkRow list \<times> SummaryRow list" where
  "apply_write (cs, ss) (UpsertChunk chunk) = (upsert_chunk cs chunk, ss)"
| "apply_write (cs, ss) (UpsertSummary sid summary) = (cs, upsert_summary ss sid summary)"

fun run_writes :: "nat option \<Rightarrow> ChunkRow list \<times> SummaryRow list \<Rightarrow> tx_write list
    \<Rightarrow> js_error + ChunkRow list \<times> SummaryRow list" where
  "run_writes (Some 0) view ws = Inl (Error ''Transaction failed'')"
| "run_writes flt view [] = Inr view"
| "run_writes flt view (w # ws) = run_writes (map_option (\<lambda>k. k - 1) flt) (apply_write view w) ws"

definition tx_writes :: "string \<Rightarrow> ChunkPayload list \<Rightarrow> GeminiSummary option \<Rightarrow> tx_write list" where
  "tx_writes sid chunks summary =
     map UpsertChunk chunks @ (case summary of None \<Rightarrow> [] | Some sm \<Rightarrow> [UpsertSummary sid sm])"

definition transaction :: "nat option \<Rightarrow> Server \<Rightarrow> string \<Rightarrow> ChunkPayload list \<Rightarrow> GeminiSummary option
    \<Rightarrow> js_error + Server" where
  "transaction flt s sid chunks summary =
     (case run_writes flt (transcriptChunks s, summaries s) (tx_writes sid chunks summary) of
        Inl e \<Rightarrow> Inl e
      | Inr (cs, ss) \<Rightarrow> Inr (s\<lparr>transcriptChunks := cs, summaries := ss\<rparr>))"

subsection \<open>The handlers\<close>

text \<open>
  Each handler is modelled as running alone from its first statement to its last. A
  session id that is absent from a control payload reads like the empty one: both are
  falsy.
\<close>

definition start_handler :: "Server \<Rightarrow> string + StartPayload \<Rightarrow> Outcome" where
  "start_handler s rawPayload =
     (case rawPayload of
        Inl message \<Rightarrow>
          \<lparr>server = s, emitted = [(Caller, session_error message None)], unhandled = None\<rparr>
      | Inr p \<Rightarrow>
          (let s1 = s\<lparr>buffer := (buffer s)(sp_sessionId p \<mapsto> [])\<rparr>
           in case user_upsert (users s1) (userId p) (userEmail p) of
                Inl e \<Rightarrow> \<lparr>server = s1, emitted = [], unhandled = Some e\<rparr>
              | Inr us \<Rightarrow>
                  (let s2 = s1\<lparr>users := us\<rparr>;
                       row = (case sessions s2 (sp_sessionId p) of
                                None \<Rightarrow> \<lparr>s_userId = userId p, s_status = RECORDING,
                                          s_source = source p, s_endedAt = None\<rparr>
                              | Some old \<Rightarrow> old\<lparr>s_status := RECORDING\<rparr>);
                       s3 = s2\<lparr>sessions := (sessions s2)(sp_sessionId p \<mapsto> row)\<rparr>
                   in \<lparr>server = s3,
                       emitted = [(Caller, session_ack (sp_sessionId p) RECORDING)],
                       unhandled = None\<rparr>)))"

text \<open>
  The chunk handler. The payload object pushed on the buffer is the one that the
  transcription result is written to afterwards, so the buffered chunk carries the
  result; \<open>transcribed\<close> is that object after the handler. A throwing
  \<^verbatim>\<open>transcribeAudio\<close> is caught and leaves the payload as it was.
\<close>

definition needs_transcription :: "ChunkPayload \<Rightarrow> bool" where
  "needs_transcription payload \<longleftrightarrow>
     (chunkText payload = None \<or> chunkText payload = Some []) \<and> audio payload \<noteq> []"

definition transcribed :: "Env \<Rightarrow> ChunkPayload \<Rightarrow> ChunkPayload" where
  "transcribed env payload =
     (if needs_transcription payload
      then (case transcribe env (audio payload) ''audio/webm'' of
              Inr transcription \<Rightarrow>
                payload\<lparr>speakerTag := t_speakerTag transcription,
                        chunkText := Some (t_text transcription),
                        confidence := t_confidence transcription\<rparr>
            | Inl e \<Rightarrow> payload)
      else payload)"

definition transcriptText :: "Env \<Rightarrow> ChunkPayload \<Rightarrow> string option" where
  "transcriptText env payload =
     (if needs_transcription payload
      then (case transcribe env (audio payload) ''audio/webm'' of
              Inr transcription \<Rightarrow> Some (t_text transcription)
            | Inl e \<Rightarrow> Some [])
      else chunkText payload)"

definition chunk_handler :: "Env \<Rightarrow> Server \<Rightarrow> string + ChunkPayload \<Rightarrow> Outcome" where
  "chunk_handler env s rawPayload =
     (case rawPayload of
        Inl message \<Rightarrow>
          \<lparr>server = s, emitted = [(Caller, session_error message None)], unhandled = None\<rparr>
      | Inr payload \<Rightarrow>
          (let payload' = transcribed env payload;
               store = (case buffer s (sessionId payload) of
                          None \<Rightarrow> [payload']
                        | Some chunks \<Rightarrow> chunks @ [payload'])
           in \<lparr>server = s\<lparr>buffer := (buffer s)(sessionId payload \<mapsto> store)\<rparr>,
               emitted =
                 [(Room (sessionId payload),
                   transcription_update
                     \<lparr>u_sessionId = sessionId payload,
                      u_sequence = int (sequence payload),
                      u_text = text_or_empty (transcriptText env payload),
                      u_speakerTag = speakerTag payload',
                      u_confidence = confidence payload'\<rparr>)],
               unhandled = None\<rparr>))"

definition status_handler :: "SessionStatus \<Rightarrow> Server \<Rightarrow> string \<Rightarrow> Outcome" where
  "status_handler st s sid =
     (if sid = [] then \<lparr>server = s, emitted = [], unhandled = None\<rparr>
      else case session_update s sid (\<lambda>row. row\<lparr>s_status := st\<rparr>) of
             Inl e \<Rightarrow> \<lparr>server = s, emitted = [], unhandled = Some e\<rparr>
           | Inr s' \<Rightarrow>
               \<lparr>server = s', emitted = [(Room sid, session_status st None)],
                unhandled = None\<rparr>)"

definition pause_handler :: "Server \<Rightarrow> string \<Rightarrow> Outcome" where
  "pause_handler = status_handler PAUSED"

definition resume_handler :: "Server \<Rightarrow> string \<Rightarrow> Outcome" where
  "resume_handler = status_handler RECORDING"

text \<open>
  \<^verbatim>\<open>Array.prototype.join\<close>; an undefined element, here a chunk without text, is
  joined as the empty string.
\<close>

fun join :: "string \<Rightarrow> string list \<Rightarrow> string" where
  "join sep [] = []"
| "join sep [x] = x"
| "join sep (x # y # ys) = x @ sep @ join sep (y # ys)"

definition build_transcript :: "ChunkPayload list \<Rightarrow> string" where
  "build_transcript chunks = join [nl] (map (\<lambda>chunk. text_or_empty (chunkText chunk)) chunks)"

definition buffered :: "Server \<Rightarrow> string \<Rightarrow> ChunkPayload list" where
  "buffered s sid = (case buffer s sid of None \<Rightarrow> [] | Some chunks \<Rightarrow> chunks)"

text \<open>
  The \<^verbatim>\<open>try\<close> block of the stop handler up to the last write: the summary
  (\<open>summary_step\<close>: \<^verbatim>\<open>null\<close> for the empty transcript, which is falsy), the
  transaction, the status \<^verbatim>\<open>COMPLETED\<close>. It returns the store as it is when the block
  is left, with the summary or the error thrown.
\<close>

definition summary_step :: "Env \<Rightarrow> string \<Rightarrow> js_error + GeminiSummary option" where
  "summary_step env transcript =
     (if transcript \<noteq> [] then map_sum id Some (summarize env transcript) else Inr None)"

definition finalize :: "Env \<Rightarrow> Server \<Rightarrow> string \<Rightarrow> ChunkPayload list \<Rightarrow> string
    \<Rightarrow> (js_error + GeminiSummary option) \<times> Server" where
  "finalize env s sid chunks transcript =
     (case summary_step env transcript of
        Inl e \<Rightarrow> (Inl e, s)
      | Inr summary \<Rightarrow>
          (case transaction (fault env) s sid chunks summary of
             Inl e \<Rightarrow> (Inl e, s)
           | Inr s' \<Rightarrow>
               (case session_update s' sid (\<lambda>row. row\<lparr>s_status := COMPLETED\<rparr>) of
                  Inl e \<Rightarrow> (Inl e, s')
                | Inr s'' \<Rightarrow> (Inr summary, s''))))"

definition buffer_delete :: "Server \<Rightarrow> string \<Rightarrow> Server" where
  "buffer_delete s sid = s\<lparr>buffer := (buffer s)(sid := None)\<rparr>"

text \<open>
  The stop handler. \<open>stop_begin\<close> is the write of \<^verbatim>\<open>PROCESSING\<close> before the
  \<^verbatim>\<open>try\<close>; when it throws the handler is left with the buffer untouched.
\<close>

definition stop_begin :: "Env \<Rightarrow> Server \<Rightarrow> string \<Rightarrow> js_error + Server" where
  "stop_begin env s sid =
     session_update s sid (\<lambda>row. row\<lparr>s_status := PROCESSING, s_endedAt := Some (now env)\<rparr>)"

definition stop_handler :: "Env \<Rightarrow> Server \<Rightarrow> string \<Rightarrow> Outcome" where
  "stop_handler env s sid =
     (if sid = [] then \<lparr>server = s, emitted = [], unhandled = None\<rparr>
      else
        (let processing = (Room sid, session_status PROCESSING None);
             chunks = buffered s sid;
             transcript = build_transcript chunks
         in case stop_begin env s sid of
              Inl e \<Rightarrow> \<lparr>server = s, emitted = [processing], unhandled = Some e\<rparr>
            | Inr s1 \<Rightarrow>
                (case finalize env s1 sid chunks transcript of
                   (Inr summary, s2) \<Rightarrow>
                     \<lparr>server = buffer_delete s2 sid,
                      emitted = [processing, (Room sid, session_status COMPLETED summary)],
                      unhandled = None\<rparr>
                 | (Inl error, s2) \<Rightarrow>
                     (case session_update s2 sid (\<lambda>row. row\<lparr>s_status := FAILED\<rparr>) of
                        Inl e \<Rightarrow>
                          \<lparr>server = buffer_delete s2 sid, emitted = [processing],
                           unhandled = Some e\<rparr>
                      | Inr s3 \<Rightarrow>
                          \<lparr>server = buffer_delete s3 sid,
                           emitted = [processing,
                             (Room sid, session_error ''Failed to process summary'' (Some error))],
                           unhandled = None\<rparr>))))"

subsection \<open>The server over a list of inbound events\<close>

datatype ClientEvent =
    SessionStart "string + StartPayload"
  | SessionChunk "string + ChunkPayload"
  | SessionPause string
  | SessionResume string
  | SessionStop string

fun handle :: "Env \<Rightarrow> Server \<Rightarrow> ClientEvent \<Rightarrow> Outcome" where
  "handle env s (SessionStart raw) = start_handler s raw"
| "handle env s (SessionChunk raw) = chunk_handler env s raw"
| "handle env s (SessionPause sid) = pause_handler s sid"
| "handle env s (SessionResume sid) = resume_handler s sid"
| "handle env s (SessionStop sid) = stop_handler env s sid"

text \<open>
  The server's state and everything sent so far, after the events of a list were handled
  one after the other, each with the outside world of its moment.
\<close>

fun run :: "Server \<times> (target \<times> emitted_event) list \<Rightarrow> (Env \<times> ClientEvent) list
    \<Rightarrow> Server \<times> (target \<times> emitted_event) list" where
  "run cfg [] = cfg"
| "run (s, out) ((env, ev) # evs) =
     (let r = handle env s ev in run (server r, out @ emitted r) evs)"

definition empty_server :: Server where
  "empty_server =
     \<lparr>buffer = Map.empty, users = [], sessions = Map.empty, transcriptChunks = [], summaries = []\<rparr>"

definition status_of :: "Server \<Rightarrow> string \<Rightarrow> SessionStatus option" where
  "status_of s sid = map_option s_status (sessions s sid)"

section \<open>Example inputs\<close>

text \<open>A session id, and a transcript update of that session.\<close>

definition sid1 :: string where
  "sid1 = ''123e4567-e89b-42d3-a456-426614174000''"

definition upd :: "int \<Rightarrow> string \<Rightarrow> TranscriptUpdate" where
  "upd n t =
     \<lparr>u_sessionId = sid1, u_sequence = n, u_text = t, u_speakerTag = ''speaker'',
      u_confidence = None\<rparr>"

text \<open>
  Parsed payloads: the start of the session, a chunk that brings its text, and a chunk
  of audio only.
\<close>

definition start1 :: ClientEvent where
  "start1 =
     SessionStart (Inr \<lparr>sp_sessionId = sid1, userId = ''u1'',
       userEmail = ''u1@example.org'', source = MIC\<rparr>)"

definition chunk :: "nat \<Rightarrow> string \<Rightarrow> ChunkPayload" where
  "chunk n t =
     \<lparr>sessionId = sid1, sequence = n, startedAt = 0, endedAt = 5000,
      speakerTag = ''speaker'', audio = ''GkXfo59ChoEBQveBAULygQRC'',
      chunkText = Some t, confidence = None\<rparr>"

definition audio_chunk :: "nat \<Rightarrow> ChunkPayload" where
  "audio_chunk n = (chunk n [])\<lparr>chunkText := None\<rparr>"

text \<open>
  Outside worlds. The summary model \<open>echo_model\<close> answers with the transcript it was
  sent, which holds no brace, so the parser is called on the empty string and throws;
  \<open>empty_throws\<close> is the parser on that input. The transcription model of \<open>env1\<close> fails
  on every call, and so does the summary model of \<open>env_summary_down\<close>; the store fails
  at the second write of the transaction in \<open>env_store_down\<close>.
\<close>

definition echo_model :: "string \<Rightarrow> gen_outcome" where
  "echo_model prompt = Responds (drop (length summary_prompt_head) prompt)"

definition empty_throws :: "string \<Rightarrow> GeminiSummary option" where
  "empty_throws jsonStr = None"

definition env1 :: Env where
  "env1 =
     \<lparr>transcribe = transcribeAudio (\<lambda>t. None) (\<lambda>t. t) (Some (\<lambda>a m. Throws (Error ''503''))),
      summarize = summarizeTranscript empty_throws (Some echo_model),
      fault = None, now = 1000\<rparr>"

definition env_summary_down :: Env where
  "env_summary_down =
     env1\<lparr>summarize := summarizeTranscript empty_throws (Some (\<lambda>p. Throws (Error ''503'')))\<rparr>"

definition env_store_down :: Env where
  "env_store_down = env1\<lparr>fault := Some 1\<rparr>"

text \<open>
  Server states: after the start of the session, and after two chunks with the texts
  \<open>hello\<close> and \<open>world\<close> were delivered to it.
\<close>

definition row1 :: SessionRow where
  "row1 = \<lparr>s_userId = ''u1'', s_status = RECORDING, s_source = MIC, s_endedAt = None\<rparr>"

definition started :: Server where
  "started = fst (run (empty_server, []) [(env1, start1)])"

definition recorded :: Server where
  "recorded =
     fst (run (started, [])
       [(env1, SessionChunk (Inr (chunk 1 ''hello''))),
        (env1, SessionChunk (Inr (chunk 2 ''world'')))])"

definition hello_world :: string where
  "hello_world = ''hello'' @ [nl] @ ''world''"

text \<open>The degraded summary that \<^verbatim>\<open>summarizeTranscript\<close> builds around a raw output.\<close>

definition fallback :: "string \<Rightarrow> GeminiSummary" where
  "fallback text =
     \<lparr>keyPoints = text, actionItems = ''Could not extract action items'',
      decisions = ''Could not extract decisions''\<rparr>"

text \<open>
  The server after that session was started and stopped with no chunk delivered.
\<close>

definition finished :: Server where
  "finished = server (stop_handler env1 started sid1)"

text \<open>
  A list of chunk deliveries, each with the outside world of its moment, as inbound
  events; the server after the chunks 3, 1 and 2 arrived in this order; the two
  concatenations of their texts.
\<close>

definition chunk_events :: "(Env \<times> ChunkPayload) list \<Rightarrow> (Env \<times> ClientEvent) list" where
  "chunk_events deliveries = map (\<lambda>(env, payload). (env, SessionChunk (Inr payload))) deliveries"

definition arrived_312 :: Server where
  "arrived_312 =
     fst (run (started, [])
       [(env1, SessionChunk (Inr (chunk 3 ''c3''))),
        (env1, SessionChunk (Inr (chunk 1 ''c1''))),
        (env1, SessionChunk (Inr (chunk 2 ''c2'')))])"

definition c312 :: string where
  "c312 = ''c3'' @ [nl] @ ''c1'' @ [nl] @ ''c2''"

definition c123 :: string where
  "c123 = ''c1'' @ [nl] @ ''c2'' @ [nl] @ ''c3''"

text \<open>
  The server after the chunk with the sequence number 1 was delivered twice, first with
  the text \<open>a\<close> and then with the text \<open>b\<close>.
\<close>

definition redelivered :: Server where
  "redelivered =
     fst (run (started, [])
       (chunk_events [(env1, chunk 1 ''a''), (env1, chunk 1 ''b'')]))"

definition a_b :: string where
  "a_b = ''a'' @ [nl] @ ''b''"

section \<open>The transition graph of the specification\<close>

text \<open>
  The legal transitions as the specification lists them (its section 4.1), for comparison
  with what the handlers do.
\<close>

definition spec_legal_transition :: "SessionStatus \<Rightarrow> SessionStatus \<Rightarrow> bool" where
  "spec_legal_transition a b \<longleftrightarrow>
     (a, b) \<in> {(PENDING, RECORDING), (RECORDING, PAUSED), (PAUSED, RECORDING),
               (RECORDING, PROCESSING), (PAUSED, PROCESSING),
               (PROCESSING, COMPLETED), (PROCESSING, FAILED)}"

section \<open>Properties of the recorder machine\<close>

lemma findIndex_ge_m1: "findIndex P xs \<ge> -1"
  by (induction xs) (auto simp: Let_def)

lemma findIndex_neg_iff: "findIndex P xs < 0 \<longleftrightarrow> (\<forall>x \<in> set xs. \<not> P x)"
  by (induction xs) (auto simp: Let_def)

lemma findIndex_hit:
  "findIndex P xs \<ge> 0 \<Longrightarrow> nat (findIndex P xs) < length xs \<and> P (xs ! nat (findIndex P xs))"
proof (induction xs)
  case Nil
  then show ?case by simp
next
  case (Cons x xs)
  show ?case
  proof (cases "P x")
    case True
    then show ?thesis by simp
  next
    case False
    with Cons.prems have nn: "findIndex P xs \<ge> 0"
      by (simp add: Let_def split: if_splits)
    from Cons.IH [OF nn] False nn show ?thesis
      by (simp add: Let_def nat_add_distrib)
  qed
qed

lemma findIndex_first:
  "findIndex P xs \<ge> 0 \<Longrightarrow> j < nat (findIndex P xs) \<Longrightarrow> \<not> P (xs ! j)"
proof (induction xs arbitrary: j)
  case Nil
  then show ?case by simp
next
  case (Cons x xs)
  show ?case
  proof (cases "P x")
    case True
    with Cons.prems show ?thesis by simp
  next
    case False
    with Cons.prems have nn: "findIndex P xs \<ge> 0"
      by (simp add: Let_def split: if_splits)
    show ?thesis
    proof (cases j)
      case 0
      with False show ?thesis by simp
    next
      case (Suc k)
      with Cons.prems False nn have "k < nat (findIndex P xs)"
        by (simp add: Let_def nat_add_distrib)
      from Cons.IH [OF nn this] Suc show ?thesis by simp
    qed
  qed
qed

lemma map_key_update_same:
  "i < length xs \<Longrightarrow> f (xs ! i) = f y \<Longrightarrow> map f (xs[i := y]) = map f xs"
  by (simp add: map_update list_update_same_conv)

lemma transcript_action_replace_keys:
  assumes "findIndex (\<lambda>chunk. u_sequence chunk = u_sequence update) transcript \<ge> 0"
  shows "map u_sequence (transcript_action transcript update) = map u_sequence transcript"
proof -
  let ?P = "\<lambda>chunk. u_sequence chunk = u_sequence update"
  from findIndex_hit [OF assms]
  have "nat (findIndex ?P transcript) < length transcript"
    and "u_sequence (transcript ! nat (findIndex ?P transcript)) = u_sequence update"
    by simp_all
  then show ?thesis
    using assms by (simp add: transcript_action_def map_key_update_same)
qed

lemma transcript_action_ordered:
  assumes "transcript_ordered transcript"
  shows "transcript_ordered (transcript_action transcript update)"
proof (cases "findIndex (\<lambda>chunk. u_sequence chunk = u_sequence update) transcript \<ge> 0")
  case True
  from transcript_action_replace_keys [OF True] assms show ?thesis
    by (simp add: transcript_ordered_def)
next
  case False
  then have neg: "findIndex (\<lambda>chunk. u_sequence chunk = u_sequence update) transcript < 0"
    by simp
  then have fresh: "u_sequence update \<notin> set (map u_sequence transcript)"
    by (auto simp: findIndex_neg_iff)
  have eq: "transcript_action transcript update = sort_key u_sequence (transcript @ [update])"
    using False by (simp add: transcript_action_def)
  have "distinct (map u_sequence (transcript @ [update]))"
    using assms fresh by (simp add: transcript_ordered_def)
  then have "distinct (map u_sequence (sort_key u_sequence (transcript @ [update])))"
    by (simp only: distinct_map distinct_sort set_sort)
  then show ?thesis
    by (simp add: eq transcript_ordered_def)
qed

lemma transcript_ordered_Nil: "transcript_ordered []"
  by (simp add: transcript_ordered_def)

lemma recorderMachine_ordered:
  "transcript_ordered (ctx_transcript c) \<Longrightarrow>
   transcript_ordered (ctx_transcript (snd (recorderMachine (st, c) ev)))"
  by (cases "((st, c), ev)" rule: recorderMachine.cases)
     (auto simp: transcript_action_ordered defaultContext_def transcript_ordered_Nil)

lemma foldl_recorderMachine_ordered:
  "transcript_ordered (ctx_transcript (snd cfg)) \<Longrightarrow>
   transcript_ordered (ctx_transcript (snd (foldl recorderMachine cfg evs)))"
proof (induction evs arbitrary: cfg)
  case Nil
  then show ?case by simp
next
  case (Cons ev evs)
  obtain st c where cfg: "cfg = (st, c)" by (cases cfg)
  with Cons.prems have "transcript_ordered (ctx_transcript (snd (recorderMachine cfg ev)))"
    by (simp add: recorderMachine_ordered)
  from Cons.IH [OF this] show ?case by simp
qed

text \<open>
  Claim C10. The \<^verbatim>\<open>TRANSCRIPT\<close> action of the recorder machine: when the list holds an
  entry with the sequence number of the update, the first such entry is replaced at its
  position; otherwise the update is appended and the list sorted by sequence number. The
  action keeps the list in ascending order of sequence numbers with no number twice, and
  the list is so in every configuration the machine reaches from its initial one.
\<close>

theorem recorder_transcript_invariant:
  "(u_sequence update \<in> u_sequence ` set transcript \<longrightarrow>
      (\<exists>i < length transcript.
          u_sequence (transcript ! i) = u_sequence update
        \<and> (\<forall>j < i. u_sequence (transcript ! j) \<noteq> u_sequence update)
        \<and> transcript_action transcript update = transcript[i := update]))
 \<and> (u_sequence update \<notin> u_sequence ` set transcript \<longrightarrow>
      transcript_action transcript update = sort_key u_sequence (transcript @ [update]))
 \<and> (transcript_ordered transcript \<longrightarrow> transcript_ordered (transcript_action transcript update))
 \<and> transcript_ordered (ctx_transcript (snd (recorder_run evs)))"
proof (intro conjI impI)
  let ?P = "\<lambda>chunk. u_sequence chunk = u_sequence update"
  {
    assume "u_sequence update \<in> u_sequence ` set transcript"
    then have "\<not> (\<forall>x \<in> set transcript. \<not> ?P x)" by auto
    then have nn: "findIndex ?P transcript \<ge> 0"
      using findIndex_neg_iff [of ?P transcript] by (meson not_le)
    let ?i = "nat (findIndex ?P transcript)"
    from findIndex_hit [OF nn]
    have "?i < length transcript" "u_sequence (transcript ! ?i) = u_sequence update"
      by simp_all
    moreover have "\<forall>j < ?i. u_sequence (transcript ! j) \<noteq> u_sequence update"
      using findIndex_first [OF nn] by blast
    moreover have "transcript_action transcript update = transcript[?i := update]"
      using nn by (simp add: transcript_action_def)
    ultimately show "\<exists>i < length transcript.
          u_sequence (transcript ! i) = u_sequence update
        \<and> (\<forall>j < i. u_sequence (transcript ! j) \<noteq> u_sequence update)
        \<and> transcript_action transcript update = transcript[i := update]"
      by blast
  }
  {
    assume "u_sequence update \<notin> u_sequence ` set transcript"
    then have "\<forall>x \<in> set transcript. \<not> ?P x" by (metis imageI)
    then have "findIndex ?P transcript < 0"
      using findIndex_neg_iff [of ?P transcript] by simp
    then show "transcript_action transcript update = sort_key u_sequence (transcript @ [update])"
      by (simp add: transcript_action_def)
  }
  {
    assume "transcript_ordered transcript"
    then show "transcript_ordered (transcript_action transcript update)"
      by (rule transcript_action_ordered)
  }
  show "transcript_ordered (ctx_transcript (snd (recorder_run evs)))"
    unfolding recorder_run_def
    by (rule foldl_recorderMachine_ordered) (simp add: defaultContext_def transcript_ordered_Nil)
qed

theorem recorder_transcript_invariant_witness:
  "u_sequence (upd 3 ''C'') \<in> u_sequence ` set [upd 1 ''a'', upd 3 ''c'']
 \<and> transcript_action [upd 1 ''a'', upd 3 ''c''] (upd 3 ''C'') = [upd 1 ''a'', upd 3 ''C'']
 \<and> u_sequence (upd 2 ''b'') \<notin> u_sequence ` set [upd 1 ''a'', upd 3 ''c'']
 \<and> transcript_action [upd 1 ''a'', upd 3 ''c''] (upd 2 ''b'') = [upd 1 ''a'', upd 2 ''b'', upd 3 ''c'']
 \<and> transcript_ordered [upd 1 ''a'', upd 3 ''c'']
 \<and> transcript_ordered (transcript_action [upd 1 ''a'', upd 3 ''c''] (upd 2 ''b''))
 \<and> transcript_ordered (ctx_transcript (snd (recorder_run
      [START sid1 MIC, TRANSCRIPT (upd 3 ''c''), TRANSCRIPT (upd 1 ''a''),
       TRANSCRIPT (upd 2 ''b''), TRANSCRIPT (upd 1 ''A'')])))"
  using recorder_transcript_invariant [of "upd 3 ''C''" "[upd 1 ''a'', upd 3 ''c'']" "[]"]
        recorder_transcript_invariant [of "upd 2 ''b''" "[upd 1 ''a'', upd 3 ''c'']"
          "[START sid1 MIC, TRANSCRIPT (upd 3 ''c''), TRANSCRIPT (upd 1 ''a''),
            TRANSCRIPT (upd 2 ''b''), TRANSCRIPT (upd 1 ''A'')]"]
  by (simp add: upd_def transcript_action_def transcript_ordered_def)

section \<open>Properties of the socket server\<close>

subsection \<open>The transaction and the stop handler, case by case\<close>

lemma run_writes_None: "run_writes None view ws = Inr (foldl apply_write view ws)"
  by (induction ws arbitrary: view) simp_all

lemma run_writes_fault:
  "k \<le> length ws \<Longrightarrow> run_writes (Some k) view ws = Inl (Error ''Transaction failed'')"
proof (induction ws arbitrary: k view)
  case Nil
  then show ?case by simp
next
  case (Cons w ws)
  then show ?case by (cases k) simp_all
qed

lemma foldl_upsert_chunks:
  "foldl apply_write (cs, ss) (map UpsertChunk chunks) = (foldl upsert_chunk cs chunks, ss)"
  by (induction chunks arbitrary: cs) simp_all

lemma foldl_tx_writes:
  "foldl apply_write (cs, ss) (tx_writes sid chunks summary) =
     (foldl upsert_chunk cs chunks,
      case summary of None \<Rightarrow> ss | Some sm \<Rightarrow> upsert_summary ss sid sm)"
  by (cases summary) (simp_all add: tx_writes_def foldl_upsert_chunks)

lemma stop_handler_completed:
  assumes "sid \<noteq> []" and "sessions s sid = Some row"
    and "summary_step env (build_transcript (buffered s sid)) = Inr summary"
    and "run_writes (fault env) (transcriptChunks s, summaries s)
           (tx_writes sid (buffered s sid) summary) = Inr (cs, ss)"
  shows "buffer (server (stop_handler env s sid)) = (buffer s)(sid := None)"
    and "users (server (stop_handler env s sid)) = users s"
    and "sessions (server (stop_handler env s sid)) =
           (sessions s)(sid \<mapsto> row\<lparr>s_endedAt := Some (now env), s_status := COMPLETED\<rparr>)"
    and "transcriptChunks (server (stop_handler env s sid)) = cs"
    and "summaries (server (stop_handler env s sid)) = ss"
    and "emitted (stop_handler env s sid) =
           [(Room sid, session_status PROCESSING None),
            (Room sid, session_status COMPLETED summary)]"
    and "unhandled (stop_handler env s sid) = None"
  using assms
  by (simp_all add: stop_handler_def stop_begin_def session_update_def finalize_def
      transaction_def buffer_delete_def Let_def)

lemma stop_handler_failed:
  assumes "sid \<noteq> []" and "sessions s sid = Some row"
    and "summary_step env (build_transcript (buffered s sid)) = Inl e
       \<or> (\<exists>summary. summary_step env (build_transcript (buffered s sid)) = Inr summary
        \<and> run_writes (fault env) (transcriptChunks s, summaries s)
           (tx_writes sid (buffered s sid) summary) = Inl e)"
  shows "buffer (server (stop_handler env s sid)) = (buffer s)(sid := None)"
    and "users (server (stop_handler env s sid)) = users s"
    and "sessions (server (stop_handler env s sid)) =
           (sessions s)(sid \<mapsto> row\<lparr>s_endedAt := Some (now env), s_status := FAILED\<rparr>)"
    and "transcriptChunks (server (stop_handler env s sid)) = transcriptChunks s"
    and "summaries (server (stop_handler env s sid)) = summaries s"
    and "emitted (stop_handler env s sid) =
           [(Room sid, session_status PROCESSING None),
            (Room sid, session_error ''Failed to process summary'' (Some e))]"
    and "unhandled (stop_handler env s sid) = None"
  using assms
  by (auto simp add: stop_handler_def stop_begin_def session_update_def finalize_def
      transaction_def buffer_delete_def Let_def)

lemma stop_handler_no_row:
  assumes "sid \<noteq> []" and "sessions s sid = None"
  shows "stop_handler env s sid =
     \<lparr>server = s, emitted = [(Room sid, session_status PROCESSING None)],
      unhandled = Some (Error ''Record to update not found'')\<rparr>"
  using assms
  by (simp add: stop_handler_def stop_begin_def session_update_def Let_def)

lemma run_writes_late:
  "length ws < k \<Longrightarrow> run_writes (Some k) view ws = Inr (foldl apply_write view ws)"
proof (induction ws arbitrary: k view)
  case Nil
  then show ?case by (cases k) simp_all
next
  case (Cons w ws)
  then show ?case by (cases k) simp_all
qed

subsection \<open>Facts about the example inputs\<close>

lemma sid1_nonempty: "sid1 \<noteq> []"
  by (simp add: sid1_def)

lemma env_faults: "fault env1 = None" "fault env_store_down = Some 1" "fault env_summary_down = None"
  by (simp_all add: env1_def env_store_down_def env_summary_down_def)

lemma started_simps:
  "buffer started = [sid1 \<mapsto> []]"
  "sessions started = [sid1 \<mapsto> row1]"
  "transcriptChunks started = []" "summaries started = []"
  by (simp_all add: started_def empty_server_def start1_def start_handler_def user_upsert_def
      Let_def row1_def)

lemma recorded_simps:
  "buffer recorded = [sid1 \<mapsto> [chunk 1 ''hello'', chunk 2 ''world'']]"
  "sessions recorded = [sid1 \<mapsto> row1]"
  "transcriptChunks recorded = []" "summaries recorded = []"
  by (simp_all add: recorded_def started_simps chunk_handler_def transcribed_def
      needs_transcription_def chunk_def Let_def)

lemma recorded_buffered: "buffered recorded sid1 = [chunk 1 ''hello'', chunk 2 ''world'']"
  by (simp add: buffered_def recorded_simps)

lemma recorded_writes:
  "tx_writes sid1 (buffered recorded sid1) (Some sm) =
     [UpsertChunk (chunk 1 ''hello''), UpsertChunk (chunk 2 ''world''), UpsertSummary sid1 sm]"
  by (simp add: tx_writes_def recorded_buffered)

lemma recorded_transcript: "build_transcript (buffered recorded sid1) = hello_world"
  by (simp add: recorded_simps buffered_def build_transcript_def chunk_def text_or_empty_def hello_world_def)

lemma hello_world_nonempty: "hello_world \<noteq> []"
  by (simp add: hello_world_def)

lemma echo_summary: "summarizeTranscript empty_throws (Some echo_model) t = Inr (fallback t)"
  by (simp add: summarizeTranscript_def echo_model_def summary_prompt_def empty_throws_def fallback_def Let_def)

lemma recorded_summary_step:
  "summary_step env1 (build_transcript (buffered recorded sid1)) = Inr (Some (fallback hello_world))"
  "summary_step env_store_down (build_transcript (buffered recorded sid1)) = Inr (Some (fallback hello_world))"
  by (simp_all add: recorded_transcript hello_world_nonempty summary_step_def env1_def env_store_down_def echo_summary)

subsection \<open>Finalization\<close>

text \<open>
  Claim C6. When the transcript assembled from the buffer is empty, as it is for a session
  stopped before any chunk was delivered, the stop handler does not call the summary
  gateway (the outcome is the same whatever the gateway would do), leaves the table of
  summaries as it is, raises no error, and sets the session to \<^verbatim>\<open>COMPLETED\<close>. The
  session has a row in the store and the store's transaction succeeds.
\<close>

theorem empty_transcript_skips_summary:
  assumes "sid \<noteq> []" and "sessions s sid = Some row"
    and "build_transcript (buffered s sid) = []" and "fault env = None"
  shows "status_of (server (stop_handler env s sid)) sid = Some COMPLETED
       \<and> summaries (server (stop_handler env s sid)) = summaries s
       \<and> emitted (stop_handler env s sid) =
           [(Room sid, session_status PROCESSING None),
            (Room sid, session_status COMPLETED None)]
       \<and> unhandled (stop_handler env s sid) = None"
proof -
  have step: "summary_step env (build_transcript (buffered s sid)) = Inr None"
    using assms(3) by (simp add: summary_step_def)
  have tx: "run_writes (fault env) (transcriptChunks s, summaries s)
              (tx_writes sid (buffered s sid) None)
            = Inr (foldl upsert_chunk (transcriptChunks s) (buffered s sid), summaries s)"
    using assms(4) by (simp add: run_writes_None foldl_tx_writes)
  from stop_handler_completed [OF assms(1,2) step tx]
  show ?thesis by (simp add: status_of_def)
qed

theorem empty_transcript_skips_summary_witness:
  "sid1 \<noteq> []
 \<and> sessions started sid1 = Some row1
 \<and> build_transcript (buffered started sid1) = []
 \<and> fault env_summary_down = None
 \<and> status_of (server (stop_handler env_summary_down started sid1)) sid1 = Some COMPLETED
 \<and> summaries (server (stop_handler env_summary_down started sid1)) = []
 \<and> emitted (stop_handler env_summary_down started sid1) =
      [(Room sid1, session_status PROCESSING None), (Room sid1, session_status COMPLETED None)]"
proof -
  have row: "sessions started sid1 = Some row1"
    by (simp add: started_simps)
  have empty: "build_transcript (buffered started sid1) = []"
    by (simp add: started_simps buffered_def build_transcript_def)
  from empty_transcript_skips_summary [OF sid1_nonempty row empty env_faults(3)]
  have "status_of (server (stop_handler env_summary_down started sid1)) sid1 = Some COMPLETED"
    "summaries (server (stop_handler env_summary_down started sid1)) = []"
    "emitted (stop_handler env_summary_down started sid1) =
      [(Room sid1, session_status PROCESSING None), (Room sid1, session_status COMPLETED None)]"
    by (simp_all add: started_simps)
  with sid1_nonempty row empty env_faults(3) show ?thesis by blast
qed

text \<open>
  Claim C9. The writes of the finalization, one upsert for each buffered chunk and the
  upsert of the summary, run in one transaction. When it succeeds the two tables hold all
  of them and the session is \<^verbatim>\<open>COMPLETED\<close>; when any of its steps fails the two tables
  are as they were before the stop, the session is \<^verbatim>\<open>FAILED\<close>, an error event is sent
  to the session's room and the buffer entry is gone.
\<close>

theorem finalization_all_or_nothing:
  assumes "sid \<noteq> []" and "sessions s sid = Some row"
    and "summary_step env (build_transcript (buffered s sid)) = Inr summary"
  shows "(fault env = None \<or> (\<exists>k. fault env = Some k \<and> length (tx_writes sid (buffered s sid) summary) < k) \<longrightarrow>
            transcriptChunks (server (stop_handler env s sid)) =
              foldl upsert_chunk (transcriptChunks s) (buffered s sid)
          \<and> summaries (server (stop_handler env s sid)) =
              (case summary of None \<Rightarrow> summaries s | Some sm \<Rightarrow> upsert_summary (summaries s) sid sm)
          \<and> status_of (server (stop_handler env s sid)) sid = Some COMPLETED)
       \<and> ((\<exists>k. fault env = Some k \<and> k \<le> length (tx_writes sid (buffered s sid) summary)) \<longrightarrow>
            transcriptChunks (server (stop_handler env s sid)) = transcriptChunks s
          \<and> summaries (server (stop_handler env s sid)) = summaries s
          \<and> status_of (server (stop_handler env s sid)) sid = Some FAILED
          \<and> emitted (stop_handler env s sid) =
              [(Room sid, session_status PROCESSING None),
               (Room sid, session_error ''Failed to process summary''
                  (Some (Error ''Transaction failed'')))]
          \<and> buffer (server (stop_handler env s sid)) sid = None)"
proof (intro conjI impI)
  let ?ws = "tx_writes sid (buffered s sid) summary"
  let ?view = "(transcriptChunks s, summaries s)"
  {
    assume "fault env = None \<or> (\<exists>k. fault env = Some k \<and> length ?ws < k)"
    then have "run_writes (fault env) ?view ?ws = Inr (foldl apply_write ?view ?ws)"
      by (auto simp: run_writes_None run_writes_late)
    then have tx: "run_writes (fault env) ?view ?ws =
        Inr (foldl upsert_chunk (transcriptChunks s) (buffered s sid),
             case summary of None \<Rightarrow> summaries s | Some sm \<Rightarrow> upsert_summary (summaries s) sid sm)"
      by (simp add: foldl_tx_writes)
    note ok = stop_handler_completed [OF assms(1,2,3) tx]
    show "transcriptChunks (server (stop_handler env s sid)) =
              foldl upsert_chunk (transcriptChunks s) (buffered s sid)"
      by (rule ok(4))
    show "summaries (server (stop_handler env s sid)) =
              (case summary of None \<Rightarrow> summaries s | Some sm \<Rightarrow> upsert_summary (summaries s) sid sm)"
      by (rule ok(5))
    show "status_of (server (stop_handler env s sid)) sid = Some COMPLETED"
      by (simp add: status_of_def ok(3))
  }
  {
    assume "\<exists>k. fault env = Some k \<and> k \<le> length ?ws"
    then have "run_writes (fault env) ?view ?ws = Inl (Error ''Transaction failed'')"
      by (auto simp: run_writes_fault)
    with assms(3) have
      "summary_step env (build_transcript (buffered s sid)) = Inl (Error ''Transaction failed'')
       \<or> (\<exists>summary. summary_step env (build_transcript (buffered s sid)) = Inr summary
        \<and> run_writes (fault env) (transcriptChunks s, summaries s)
           (tx_writes sid (buffered s sid) summary) = Inl (Error ''Transaction failed''))"
      by blast
    note ko = stop_handler_failed [OF assms(1,2) this]
    show "transcriptChunks (server (stop_handler env s sid)) = transcriptChunks s"
      by (rule ko(4))
    show "summaries (server (stop_handler env s sid)) = summaries s"
      by (rule ko(5))
    show "status_of (server (stop_handler env s sid)) sid = Some FAILED"
      by (simp add: status_of_def ko(3))
    show "emitted (stop_handler env s sid) =
              [(Room sid, session_status PROCESSING None),
               (Room sid, session_error ''Failed to process summary''
                  (Some (Error ''Transaction failed'')))]"
      by (rule ko(6))
    show "buffer (server (stop_handler env s sid)) sid = None"
      by (simp add: ko(1))
  }
qed

theorem finalization_all_or_nothing_witness:
  "sid1 \<noteq> [] \<and> sessions recorded sid1 = Some row1
 \<and> summary_step env_store_down (build_transcript (buffered recorded sid1)) = Inr (Some (fallback hello_world))
 \<and> fault env_store_down = Some 1
 \<and> 1 \<le> length (tx_writes sid1 (buffered recorded sid1) (Some (fallback hello_world)))
 \<and> transcriptChunks (server (stop_handler env_store_down recorded sid1)) = []
 \<and> summaries (server (stop_handler env_store_down recorded sid1)) = []
 \<and> status_of (server (stop_handler env_store_down recorded sid1)) sid1 = Some FAILED
 \<and> emitted (stop_handler env_store_down recorded sid1) =
      [(Room sid1, session_status PROCESSING None),
       (Room sid1, session_error ''Failed to process summary'' (Some (Error ''Transaction failed'')))]
 \<and> summary_step env1 (build_transcript (buffered recorded sid1)) = Inr (Some (fallback hello_world))
 \<and> fault env1 = None
 \<and> map r_text (transcriptChunks (server (stop_handler env1 recorded sid1))) = [''hello'', ''world'']
 \<and> map m_summary (summaries (server (stop_handler env1 recorded sid1))) = [fallback hello_world]
 \<and> status_of (server (stop_handler env1 recorded sid1)) sid1 = Some COMPLETED"
proof -
  have row: "sessions recorded sid1 = Some row1"
    by (simp add: recorded_simps)
  have len: "1 \<le> length (tx_writes sid1 (buffered recorded sid1) (Some (fallback hello_world)))"
    by (simp add: recorded_writes)
  then have fails: "\<exists>k. fault env_store_down = Some k
      \<and> k \<le> length (tx_writes sid1 (buffered recorded sid1) (Some (fallback hello_world)))"
    by (simp add: env_faults)
  have fine: "fault env1 = None
      \<or> (\<exists>k. fault env1 = Some k
           \<and> length (tx_writes sid1 (buffered recorded sid1) (Some (fallback hello_world))) < k)"
    by (simp add: env_faults)
  from finalization_all_or_nothing [OF sid1_nonempty row recorded_summary_step(2)] fails
  have down: "transcriptChunks (server (stop_handler env_store_down recorded sid1)) = transcriptChunks recorded
      \<and> summaries (server (stop_handler env_store_down recorded sid1)) = summaries recorded
      \<and> status_of (server (stop_handler env_store_down recorded sid1)) sid1 = Some FAILED
      \<and> emitted (stop_handler env_store_down recorded sid1) =
          [(Room sid1, session_status PROCESSING None),
           (Room sid1, session_error ''Failed to process summary'' (Some (Error ''Transaction failed'')))]"
    by blast
  from finalization_all_or_nothing [OF sid1_nonempty row recorded_summary_step(1)] fine
  have up: "transcriptChunks (server (stop_handler env1 recorded sid1)) =
              foldl upsert_chunk (transcriptChunks recorded) (buffered recorded sid1)
      \<and> summaries (server (stop_handler env1 recorded sid1)) =
          upsert_summary (summaries recorded) sid1 (fallback hello_world)
      \<and> status_of (server (stop_handler env1 recorded sid1)) sid1 = Some COMPLETED"
    by simp
  have rows: "map r_text (foldl upsert_chunk [] [chunk 1 ''hello'', chunk 2 ''world'']) = [''hello'', ''world'']"
    by (simp add: upsert_chunk_def same_key_def chunk_create_def chunk_def text_or_empty_def)
  from down have d: "transcriptChunks (server (stop_handler env_store_down recorded sid1)) = []"
      "summaries (server (stop_handler env_store_down recorded sid1)) = []"
      "status_of (server (stop_handler env_store_down recorded sid1)) sid1 = Some FAILED"
      "emitted (stop_handler env_store_down recorded sid1) =
          [(Room sid1, session_status PROCESSING None),
           (Room sid1, session_error ''Failed to process summary'' (Some (Error ''Transaction failed'')))]"
    by (simp_all add: recorded_simps(3,4))
  from up rows have u: "map r_text (transcriptChunks (server (stop_handler env1 recorded sid1))) = [''hello'', ''world'']"
      "map m_summary (summaries (server (stop_handler env1 recorded sid1))) = [fallback hello_world]"
      "status_of (server (stop_handler env1 recorded sid1)) sid1 = Some COMPLETED"
    by (simp_all add: recorded_simps(3,4) recorded_buffered upsert_summary_def)
  from sid1_nonempty row recorded_summary_step env_faults(1,2) len d u
  show ?thesis by blast
qed

subsection \<open>The handlers, case by case\<close>

lemma chunk_handler_Inr:
  "buffer (server (chunk_handler env s (Inr payload))) =
     (buffer s)(sessionId payload \<mapsto> buffered s (sessionId payload) @ [transcribed env payload])"
  "users (server (chunk_handler env s (Inr payload))) = users s"
  "sessions (server (chunk_handler env s (Inr payload))) = sessions s"
  "transcriptChunks (server (chunk_handler env s (Inr payload))) = transcriptChunks s"
  "summaries (server (chunk_handler env s (Inr payload))) = summaries s"
  "emitted (chunk_handler env s (Inr payload)) =
     [(Room (sessionId payload),
       transcription_update
         \<lparr>u_sessionId = sessionId payload, u_sequence = int (sequence payload),
          u_text = text_or_empty (transcriptText env payload),
          u_speakerTag = speakerTag (transcribed env payload),
          u_confidence = confidence (transcribed env payload)\<rparr>)]"
  "unhandled (chunk_handler env s (Inr payload)) = None"
  by (simp_all add: chunk_handler_def buffered_def Let_def split: option.split)

lemma buffered_chunk_handler:
  "buffered (server (chunk_handler env s (Inr payload))) sid =
     (if sid = sessionId payload then buffered s sid @ [transcribed env payload]
      else buffered s sid)"
  by (simp add: buffered_def chunk_handler_Inr(1))

lemma status_handler_row:
  assumes "sid \<noteq> []" and "sessions s sid = Some row"
  shows "sessions (server (status_handler st s sid)) = (sessions s)(sid \<mapsto> row\<lparr>s_status := st\<rparr>)"
    and "buffer (server (status_handler st s sid)) = buffer s"
    and "transcriptChunks (server (status_handler st s sid)) = transcriptChunks s"
    and "summaries (server (status_handler st s sid)) = summaries s"
    and "emitted (status_handler st s sid) = [(Room sid, session_status st None)]"
    and "unhandled (status_handler st s sid) = None"
  using assms by (simp_all add: status_handler_def session_update_def)

lemma status_handler_no_row:
  assumes "sid \<noteq> []" and "sessions s sid = None"
  shows "status_handler st s sid =
     \<lparr>server = s, emitted = [], unhandled = Some (Error ''Record to update not found'')\<rparr>"
  using assms by (simp add: status_handler_def session_update_def)

lemma stop_handler_ends:
  assumes "sid \<noteq> []" and "sessions s sid = Some row"
  shows "(status_of (server (stop_handler env s sid)) sid = Some COMPLETED
          \<or> status_of (server (stop_handler env s sid)) sid = Some FAILED)
       \<and> hd (emitted (stop_handler env s sid)) = (Room sid, session_status PROCESSING None)
       \<and> unhandled (stop_handler env s sid) = None
       \<and> buffer (server (stop_handler env s sid)) sid = None"
proof (cases "summary_step env (build_transcript (buffered s sid))")
  case (Inl e)
  then have "summary_step env (build_transcript (buffered s sid)) = Inl e
       \<or> (\<exists>summary. summary_step env (build_transcript (buffered s sid)) = Inr summary
        \<and> run_writes (fault env) (transcriptChunks s, summaries s)
           (tx_writes sid (buffered s sid) summary) = Inl e)"
    by simp
  from stop_handler_failed [OF assms this] show ?thesis
    by (simp add: status_of_def)
next
  case (Inr summary)
  show ?thesis
  proof (cases "run_writes (fault env) (transcriptChunks s, summaries s)
           (tx_writes sid (buffered s sid) summary)")
    case (Inl e)
    with Inr have "summary_step env (build_transcript (buffered s sid)) = Inl e
       \<or> (\<exists>summary. summary_step env (build_transcript (buffered s sid)) = Inr summary
        \<and> run_writes (fault env) (transcriptChunks s, summaries s)
           (tx_writes sid (buffered s sid) summary) = Inl e)"
      by simp
    from stop_handler_failed [OF assms this] show ?thesis
      by (simp add: status_of_def)
  next
    case tx: (Inr view)
    obtain cs ss where "view = (cs, ss)" by (cases view)
    with tx have "run_writes (fault env) (transcriptChunks s, summaries s)
           (tx_writes sid (buffered s sid) summary) = Inr (cs, ss)"
      by simp
    from stop_handler_completed [OF assms Inr this] show ?thesis
      by (simp add: status_of_def)
  qed
qed

lemma stop_begin_row:
  "sessions s sid = Some row \<Longrightarrow>
   stop_begin env s sid =
     Inr (s\<lparr>sessions := (sessions s)(sid \<mapsto> row\<lparr>s_status := PROCESSING, s_endedAt := Some (now env)\<rparr>)\<rparr>)"
  by (simp add: stop_begin_def session_update_def)

lemma env_now: "now env1 = 1000"
  by (simp add: env1_def)

lemma finished_simps:
  "buffer finished = Map.empty"
  "sessions finished = [sid1 \<mapsto> row1\<lparr>s_endedAt := Some 1000, s_status := COMPLETED\<rparr>]"
  "transcriptChunks finished = []" "summaries finished = []"
proof -
  have row: "sessions started sid1 = Some row1"
    by (simp add: started_simps)
  have empty: "summary_step env1 (build_transcript (buffered started sid1)) = Inr None"
    by (simp add: started_simps buffered_def build_transcript_def summary_step_def)
  have tx: "run_writes (fault env1) (transcriptChunks started, summaries started)
      (tx_writes sid1 (buffered started sid1) None) = Inr ([], [])"
    by (simp add: env_faults started_simps buffered_def tx_writes_def)
  note ok = stop_handler_completed [OF sid1_nonempty row empty tx]
  show "buffer finished = Map.empty"
    by (simp add: finished_def ok(1) started_simps)
  show "sessions finished = [sid1 \<mapsto> row1\<lparr>s_endedAt := Some 1000, s_status := COMPLETED\<rparr>]"
    by (simp add: finished_def ok(3) started_simps env_now)
  show "transcriptChunks finished = []"
    by (simp add: finished_def ok(4))
  show "summaries finished = []"
    by (simp add: finished_def ok(5))
qed

subsection \<open>Control events\<close>

text \<open>
  Claim C3, as the code has it. The handlers apply a control event without looking at the
  current status. For a session that has a row in the store, pause sets \<^verbatim>\<open>PAUSED\<close> and
  resume sets \<^verbatim>\<open>RECORDING\<close> and both broadcast the new status; stop writes
  \<^verbatim>\<open>PROCESSING\<close>, broadcasts it first, and ends in \<^verbatim>\<open>COMPLETED\<close> or
  \<^verbatim>\<open>FAILED\<close>; start sets \<^verbatim>\<open>RECORDING\<close> when the user's row can be written. None of
  them reports a refused transition. Pause and resume of a session without a row throw in
  the store's update, with the server unchanged and nothing sent.
\<close>

theorem control_events_applied_unconditionally:
  assumes "sid \<noteq> []" and "sessions s sid = Some row"
  shows "status_of (server (pause_handler s sid)) sid = Some PAUSED
       \<and> emitted (pause_handler s sid) = [(Room sid, session_status PAUSED None)]
       \<and> unhandled (pause_handler s sid) = None
       \<and> status_of (server (resume_handler s sid)) sid = Some RECORDING
       \<and> emitted (resume_handler s sid) = [(Room sid, session_status RECORDING None)]
       \<and> unhandled (resume_handler s sid) = None
       \<and> map_sum id (\<lambda>s1. status_of s1 sid) (stop_begin env s sid) = Inr (Some PROCESSING)
       \<and> hd (emitted (stop_handler env s sid)) = (Room sid, session_status PROCESSING None)
       \<and> (status_of (server (stop_handler env s sid)) sid = Some COMPLETED
          \<or> status_of (server (stop_handler env s sid)) sid = Some FAILED)
       \<and> unhandled (stop_handler env s sid) = None
       \<and> (\<forall>p us. user_upsert (users s) (userId p) (userEmail p) = Inr us \<longrightarrow>
             status_of (server (start_handler s (Inr p))) (sp_sessionId p) = Some RECORDING)
       \<and> (\<forall>s' st. sessions s' sid = None \<longrightarrow>
             server (status_handler st s' sid) = s' \<and> emitted (status_handler st s' sid) = []
           \<and> unhandled (status_handler st s' sid) = Some (Error ''Record to update not found''))"
proof -
  have rows: "status_of (server (pause_handler s sid)) sid = Some PAUSED
       \<and> emitted (pause_handler s sid) = [(Room sid, session_status PAUSED None)]
       \<and> unhandled (pause_handler s sid) = None
       \<and> status_of (server (resume_handler s sid)) sid = Some RECORDING
       \<and> emitted (resume_handler s sid) = [(Room sid, session_status RECORDING None)]
       \<and> unhandled (resume_handler s sid) = None
       \<and> map_sum id (\<lambda>s1. status_of s1 sid) (stop_begin env s sid) = Inr (Some PROCESSING)
       \<and> hd (emitted (stop_handler env s sid)) = (Room sid, session_status PROCESSING None)
       \<and> (status_of (server (stop_handler env s sid)) sid = Some COMPLETED
          \<or> status_of (server (stop_handler env s sid)) sid = Some FAILED)
       \<and> unhandled (stop_handler env s sid) = None"
    using status_handler_row [OF assms, of PAUSED] status_handler_row [OF assms, of RECORDING]
      stop_handler_ends [OF assms, of env] stop_begin_row [OF assms(2), of env]
    by (simp add: pause_handler_def resume_handler_def status_of_def)
  have start: "\<forall>p us. user_upsert (users s) (userId p) (userEmail p) = Inr us \<longrightarrow>
             status_of (server (start_handler s (Inr p))) (sp_sessionId p) = Some RECORDING"
    by (simp add: start_handler_def Let_def status_of_def split: option.split)
  have norow: "\<forall>s' st. sessions s' sid = None \<longrightarrow>
             server (status_handler st s' sid) = s' \<and> emitted (status_handler st s' sid) = []
           \<and> unhandled (status_handler st s' sid) = Some (Error ''Record to update not found'')"
    by (simp add: status_handler_no_row [OF assms(1)])
  from rows start norow show ?thesis by blast
qed

theorem control_events_applied_unconditionally_witness:
  "sid1 \<noteq> []
 \<and> sessions finished sid1 = Some (row1\<lparr>s_endedAt := Some 1000, s_status := COMPLETED\<rparr>)
 \<and> status_of (server (pause_handler finished sid1)) sid1 = Some PAUSED
 \<and> emitted (pause_handler finished sid1) = [(Room sid1, session_status PAUSED None)]
 \<and> status_of (server (resume_handler finished sid1)) sid1 = Some RECORDING
 \<and> hd (emitted (stop_handler env1 finished sid1)) = (Room sid1, session_status PROCESSING None)
 \<and> (status_of (server (stop_handler env1 finished sid1)) sid1 = Some COMPLETED
    \<or> status_of (server (stop_handler env1 finished sid1)) sid1 = Some FAILED)"
proof -
  have row: "sessions finished sid1 = Some (row1\<lparr>s_endedAt := Some 1000, s_status := COMPLETED\<rparr>)"
    by (simp add: finished_simps)
  from control_events_applied_unconditionally [OF sid1_nonempty row, of env1] sid1_nonempty row
  show ?thesis by blast
qed

text \<open>
  Claim C3 as stated fails: a session that was stopped and is \<^verbatim>\<open>COMPLETED\<close> is set to
  \<^verbatim>\<open>PAUSED\<close> by a pause event, a transition that the specification's graph does not
  have; the new status is broadcast and no error is reported.
\<close>

theorem completed_session_paused_counterexample:
  "status_of finished sid1 = Some COMPLETED
 \<and> status_of (server (pause_handler finished sid1)) sid1 = Some PAUSED
 \<and> emitted (pause_handler finished sid1) = [(Room sid1, session_status PAUSED None)]
 \<and> unhandled (pause_handler finished sid1) = None
 \<and> server (pause_handler finished sid1) \<noteq> finished
 \<and> \<not> spec_legal_transition COMPLETED PAUSED"
proof -
  have row: "sessions finished sid1 = Some (row1\<lparr>s_endedAt := Some 1000, s_status := COMPLETED\<rparr>)"
    by (simp add: finished_simps)
  note p = status_handler_row [OF sid1_nonempty row, of PAUSED]
  have "status_of finished sid1 = Some COMPLETED"
    by (simp add: status_of_def finished_simps)
  moreover have st: "status_of (server (pause_handler finished sid1)) sid1 = Some PAUSED"
    by (simp add: status_of_def pause_handler_def p(1))
  moreover have "server (pause_handler finished sid1) \<noteq> finished"
    using st calculation(1) by auto
  moreover have "\<not> spec_legal_transition COMPLETED PAUSED"
    by (simp add: spec_legal_transition_def)
  ultimately show ?thesis
    by (simp add: pause_handler_def p(5,6))
qed

subsection \<open>Chunks\<close>

lemma transcribeAudio_throws:
  "generateContent audioBase64 (if mimeType = [] then ''audio/webm'' else mimeType) = Throws e \<Longrightarrow>
   transcribeAudio speakerMatch trim (Some generateContent) audioBase64 mimeType =
     Inr \<lparr>t_text = [], t_speakerTag = ''speaker'', t_confidence = Some 0\<rparr>"
  by (simp add: transcribeAudio_def)

lemma audio_chunk_needs: "needs_transcription (audio_chunk n)"
  by (simp add: needs_transcription_def audio_chunk_def chunk_def)

lemma audio_chunk_fields:
  "sessionId (audio_chunk n) = sid1" "sequence (audio_chunk n) = n"
  "audio (audio_chunk n) = ''GkXfo59ChoEBQveBAULygQRC''"
  by (simp_all add: audio_chunk_def chunk_def)

lemma env1_transcribe:
  "transcribe env1 = transcribeAudio (\<lambda>t. None) (\<lambda>t. t) (Some (\<lambda>a m. Throws (Error ''503'')))"
  by (simp add: env1_def)

text \<open>
  Claim C7. When the call of the external transcription model throws, \<^verbatim>\<open>transcribeAudio\<close>
  returns the empty transcription (empty text, confidence zero) instead of throwing. The
  chunk handler then buffers the chunk with the empty text, broadcasts the update with the
  empty text, leaves the session rows as they are and throws nothing; a chunk delivered
  afterwards is buffered behind it.
\<close>

theorem transcription_failure_absorbed:
  assumes "transcribe env = transcribeAudio speakerMatch trim (Some generateContent)"
    and "generateContent (audio payload) ''audio/webm'' = Throws e"
    and "needs_transcription payload"
  shows "transcribe env (audio payload) ''audio/webm'' =
           Inr \<lparr>t_text = [], t_speakerTag = ''speaker'', t_confidence = Some 0\<rparr>
       \<and> buffered (server (chunk_handler env s (Inr payload))) (sessionId payload) =
           buffered s (sessionId payload) @ [transcribed env payload]
       \<and> chunkText (transcribed env payload) = Some []
       \<and> speakerTag (transcribed env payload) = ''speaker''
       \<and> confidence (transcribed env payload) = Some 0
       \<and> sequence (transcribed env payload) = sequence payload
       \<and> emitted (chunk_handler env s (Inr payload)) =
           [(Room (sessionId payload),
             transcription_update
               \<lparr>u_sessionId = sessionId payload, u_sequence = int (sequence payload),
                u_text = [], u_speakerTag = ''speaker'', u_confidence = Some 0\<rparr>)]
       \<and> unhandled (chunk_handler env s (Inr payload)) = None
       \<and> sessions (server (chunk_handler env s (Inr payload))) = sessions s
       \<and> (\<forall>env' later.
             buffered (server (chunk_handler env' (server (chunk_handler env s (Inr payload))) (Inr later)))
               (sessionId later) =
             buffered (server (chunk_handler env s (Inr payload))) (sessionId later)
               @ [transcribed env' later]
           \<and> unhandled (chunk_handler env' (server (chunk_handler env s (Inr payload))) (Inr later)) = None)"
proof -
  have tr: "transcribe env (audio payload) ''audio/webm'' =
           Inr \<lparr>t_text = [], t_speakerTag = ''speaker'', t_confidence = Some 0\<rparr>"
    using assms(1,2) by (simp add: transcribeAudio_throws)
  have fields: "chunkText (transcribed env payload) = Some []"
    "speakerTag (transcribed env payload) = ''speaker''"
    "confidence (transcribed env payload) = Some 0"
    "sequence (transcribed env payload) = sequence payload"
    using tr assms(3) by (simp_all add: transcribed_def)
  have sent: "text_or_empty (transcriptText env payload) = []"
    using tr assms(3) by (simp add: transcriptText_def text_or_empty_def)
  show ?thesis
    using tr fields sent
    by (simp add: chunk_handler_Inr buffered_chunk_handler)
qed

theorem transcription_failure_absorbed_witness:
  "transcribe env1 = transcribeAudio (\<lambda>t. None) (\<lambda>t. t) (Some (\<lambda>a m. Throws (Error ''503'')))
 \<and> needs_transcription (audio_chunk 3)
 \<and> map chunkText (buffered (server (chunk_handler env1 recorded (Inr (audio_chunk 3)))) sid1) =
      [Some ''hello'', Some ''world'', Some []]
 \<and> emitted (chunk_handler env1 recorded (Inr (audio_chunk 3))) =
      [(Room sid1, transcription_update
          \<lparr>u_sessionId = sid1, u_sequence = 3, u_text = [], u_speakerTag = ''speaker'',
           u_confidence = Some 0\<rparr>)]
 \<and> sessions (server (chunk_handler env1 recorded (Inr (audio_chunk 3)))) sid1 = Some row1
 \<and> map sequence (buffered (server (chunk_handler env1
        (server (chunk_handler env1 recorded (Inr (audio_chunk 3)))) (Inr (chunk 4 ''next'')))) sid1) =
      [1, 2, 3, 4]"
proof -
  have thr: "(\<lambda>a m. Throws (Error ''503'')) (audio (audio_chunk 3)) ''audio/webm'' = Throws (Error ''503'')"
    by simp
  note t = transcription_failure_absorbed [OF env1_transcribe thr audio_chunk_needs, where s = recorded]
  from t have nxt: "buffered (server (chunk_handler env1 (server (chunk_handler env1 recorded (Inr (audio_chunk 3)))) (Inr (chunk 4 ''next''))))
               (sessionId (chunk 4 ''next'')) =
             buffered (server (chunk_handler env1 recorded (Inr (audio_chunk 3)))) (sessionId (chunk 4 ''next''))
               @ [transcribed env1 (chunk 4 ''next'')]"
    by blast
  have c4: "transcribed env1 (chunk 4 ''next'') = chunk 4 ''next''" "sessionId (chunk 4 ''next'') = sid1"
    by (simp_all add: transcribed_def needs_transcription_def chunk_def)
  from t have buf: "buffered (server (chunk_handler env1 recorded (Inr (audio_chunk 3)))) sid1 =
      [chunk 1 ''hello'', chunk 2 ''world'', transcribed env1 (audio_chunk 3)]"
    by (simp add: audio_chunk_fields recorded_buffered)
  from t have f: "chunkText (transcribed env1 (audio_chunk 3)) = Some []"
    "sequence (transcribed env1 (audio_chunk 3)) = 3"
    by (simp_all add: audio_chunk_fields)
  have a: "map chunkText (buffered (server (chunk_handler env1 recorded (Inr (audio_chunk 3)))) sid1) =
      [Some ''hello'', Some ''world'', Some []]"
    by (simp add: buf f) (simp add: chunk_def)
  have b: "map sequence (buffered (server (chunk_handler env1
        (server (chunk_handler env1 recorded (Inr (audio_chunk 3)))) (Inr (chunk 4 ''next'')))) sid1) =
      [1, 2, 3, 4]"
    using nxt by (simp add: c4 buf f) (simp add: chunk_def)
  from t have c: "emitted (chunk_handler env1 recorded (Inr (audio_chunk 3))) =
      [(Room sid1, transcription_update
          \<lparr>u_sessionId = sid1, u_sequence = 3, u_text = [], u_speakerTag = ''speaker'',
           u_confidence = Some 0\<rparr>)]"
    by (simp add: audio_chunk_fields)
  from t have d: "sessions (server (chunk_handler env1 recorded (Inr (audio_chunk 3)))) sid1 = Some row1"
    by (simp add: recorded_simps)
  from env1_transcribe audio_chunk_needs a b c d show ?thesis by blast
qed

lemma chunk_with_text:
  "transcribed env (chunk n (c # t)) = chunk n (c # t)"
  "text_or_empty (transcriptText env (chunk n (c # t))) = c # t"
  "sessionId (chunk n t') = sid1" "sequence (chunk n t') = n"
  "speakerTag (chunk n t') = ''speaker''" "confidence (chunk n t') = None"
  by (simp_all add: transcribed_def transcriptText_def needs_transcription_def chunk_def
      text_or_empty_def)

lemma finished_row:
  "sessions finished sid1 = Some (row1\<lparr>s_endedAt := Some 1000, s_status := COMPLETED\<rparr>)"
  by (simp add: finished_simps)

text \<open>
  Claim C5, as the code has it. The chunk handler has no precondition on the session: a
  parsed chunk is appended to the buffer entry of its session id, whatever the status of
  the session and whether or not the server knows the id; where there is no entry, one is
  made that holds just this chunk. The other entries and the session rows stay as they
  are, the update is broadcast and nothing is thrown. Only a payload that fails the
  schema is rejected, with a \<^verbatim>\<open>session:error\<close> to the sender.
\<close>

theorem chunk_accepted_in_any_state:
  "buffer (server (chunk_handler env s (Inr payload))) (sessionId payload) =
     Some (buffered s (sessionId payload) @ [transcribed env payload])
 \<and> (buffer s (sessionId payload) = None \<longrightarrow>
      buffer (server (chunk_handler env s (Inr payload))) (sessionId payload) =
        Some [transcribed env payload])
 \<and> (\<forall>sid. sid \<noteq> sessionId payload \<longrightarrow>
      buffer (server (chunk_handler env s (Inr payload))) sid = buffer s sid)
 \<and> sessions (server (chunk_handler env s (Inr payload))) = sessions s
 \<and> (\<exists>u. emitted (chunk_handler env s (Inr payload)) =
           [(Room (sessionId payload), transcription_update u)])
 \<and> unhandled (chunk_handler env s (Inr payload)) = None
 \<and> chunk_handler env s (Inl message) =
      \<lparr>server = s, emitted = [(Caller, session_error message None)], unhandled = None\<rparr>"
  by (simp add: chunk_handler_Inr buffered_def) (simp add: chunk_handler_def)

theorem chunk_accepted_in_any_state_witness:
  "buffer empty_server (sessionId (chunk 1 ''hello'')) = None
 \<and> buffer (server (chunk_handler env1 empty_server (Inr (chunk 1 ''hello'')))) sid1 =
      Some [chunk 1 ''hello'']
 \<and> sessions (server (chunk_handler env1 empty_server (Inr (chunk 1 ''hello'')))) = Map.empty
 \<and> unhandled (chunk_handler env1 empty_server (Inr (chunk 1 ''hello''))) = None
 \<and> chunk_handler env1 empty_server (Inl ''Required'') =
      \<lparr>server = empty_server, emitted = [(Caller, session_error ''Required'' None)],
       unhandled = None\<rparr>"
proof -
  have none: "buffer empty_server (sessionId (chunk 1 ''hello'')) = None"
    by (simp add: empty_server_def)
  note t = chunk_accepted_in_any_state [of env1 empty_server "chunk 1 ''hello''" "''Required''"]
  from t none have "buffer (server (chunk_handler env1 empty_server (Inr (chunk 1 ''hello''))))
      (sessionId (chunk 1 ''hello'')) = Some [transcribed env1 (chunk 1 ''hello'')]"
    by blast
  then have a: "buffer (server (chunk_handler env1 empty_server (Inr (chunk 1 ''hello'')))) sid1 =
      Some [chunk 1 ''hello'']"
    by (simp add: chunk_with_text)
  from t have b: "sessions (server (chunk_handler env1 empty_server (Inr (chunk 1 ''hello'')))) = Map.empty"
    by (simp add: empty_server_def)
  from t none a b show ?thesis by blast
qed

text \<open>
  Claim C5 as stated fails: on a server that tracks no session, a chunk for an unknown
  session id creates a buffer entry holding the chunk and is broadcast, with no error.
\<close>

theorem untracked_session_chunk_counterexample:
  "status_of empty_server sid1 = None
 \<and> buffer empty_server sid1 = None
 \<and> buffer (server (chunk_handler env1 empty_server (Inr (chunk 1 ''hello'')))) sid1 =
      Some [chunk 1 ''hello'']
 \<and> emitted (chunk_handler env1 empty_server (Inr (chunk 1 ''hello''))) =
      [(Room sid1, transcription_update (upd 1 ''hello''))]
 \<and> unhandled (chunk_handler env1 empty_server (Inr (chunk 1 ''hello''))) = None"
  by (simp add: chunk_handler_Inr chunk_with_text upd_def)
     (simp add: empty_server_def status_of_def buffered_def)

text \<open>
  Claim C4, as the code has it. A session whose status is \<^verbatim>\<open>COMPLETED\<close> or
  \<^verbatim>\<open>FAILED\<close> is served like any other: a chunk for it is buffered and broadcast, a
  stop runs the finalization again (over the empty transcript when nothing was buffered
  since, ending \<^verbatim>\<open>COMPLETED\<close> when the store succeeds), and pause and resume change
  its status.
\<close>

theorem terminal_session_still_served:
  assumes "sid \<noteq> []" and "sessions s sid = Some row"
    and "s_status row = COMPLETED \<or> s_status row = FAILED"
  shows "(sessionId payload = sid \<longrightarrow>
            buffer (server (chunk_handler env s (Inr payload))) sid =
              Some (buffered s sid @ [transcribed env payload])
          \<and> (\<exists>u. emitted (chunk_handler env s (Inr payload)) =
                [(Room sid, transcription_update u)])
          \<and> unhandled (chunk_handler env s (Inr payload)) = None)
       \<and> hd (emitted (stop_handler env s sid)) = (Room sid, session_status PROCESSING None)
       \<and> unhandled (stop_handler env s sid) = None
       \<and> (buffer s sid = None \<and> fault env = None \<longrightarrow>
            emitted (stop_handler env s sid) =
              [(Room sid, session_status PROCESSING None),
               (Room sid, session_status COMPLETED None)]
          \<and> status_of (server (stop_handler env s sid)) sid = Some COMPLETED)
       \<and> status_of (server (pause_handler s sid)) sid = Some PAUSED
       \<and> status_of (server (resume_handler s sid)) sid = Some RECORDING"
proof -
  have chunk: "sessionId payload = sid \<longrightarrow>
            buffer (server (chunk_handler env s (Inr payload))) sid =
              Some (buffered s sid @ [transcribed env payload])
          \<and> (\<exists>u. emitted (chunk_handler env s (Inr payload)) =
                [(Room sid, transcription_update u)])
          \<and> unhandled (chunk_handler env s (Inr payload)) = None"
    by (auto simp: chunk_handler_Inr)
  have again: "buffer s sid = None \<and> fault env = None \<longrightarrow>
            emitted (stop_handler env s sid) =
              [(Room sid, session_status PROCESSING None),
               (Room sid, session_status COMPLETED None)]
          \<and> status_of (server (stop_handler env s sid)) sid = Some COMPLETED"
  proof
    assume h: "buffer s sid = None \<and> fault env = None"
    then have step: "summary_step env (build_transcript (buffered s sid)) = Inr None"
      by (simp add: summary_step_def buffered_def build_transcript_def)
    have tx: "run_writes (fault env) (transcriptChunks s, summaries s)
              (tx_writes sid (buffered s sid) None) = Inr (transcriptChunks s, summaries s)"
      using h by (simp add: run_writes_None tx_writes_def buffered_def)
    from stop_handler_completed [OF assms(1,2) step tx]
    show "emitted (stop_handler env s sid) =
              [(Room sid, session_status PROCESSING None),
               (Room sid, session_status COMPLETED None)]
          \<and> status_of (server (stop_handler env s sid)) sid = Some COMPLETED"
      by (simp add: status_of_def)
  qed
  from chunk again stop_handler_ends [OF assms(1,2), of env]
    status_handler_row(1) [OF assms(1,2), of PAUSED] status_handler_row(1) [OF assms(1,2), of RECORDING]
  show ?thesis
    by (simp add: pause_handler_def resume_handler_def status_of_def)
qed

theorem terminal_session_still_served_witness:
  "sid1 \<noteq> []
 \<and> sessions finished sid1 = Some (row1\<lparr>s_endedAt := Some 1000, s_status := COMPLETED\<rparr>)
 \<and> s_status (row1\<lparr>s_endedAt := Some 1000, s_status := COMPLETED\<rparr>) = COMPLETED
 \<and> sessionId (chunk 7 ''late'') = sid1
 \<and> buffer finished sid1 = None \<and> fault env1 = None
 \<and> buffer (server (chunk_handler env1 finished (Inr (chunk 7 ''late'')))) sid1 =
      Some [chunk 7 ''late'']
 \<and> emitted (stop_handler env1 finished sid1) =
      [(Room sid1, session_status PROCESSING None), (Room sid1, session_status COMPLETED None)]
 \<and> status_of (server (stop_handler env1 finished sid1)) sid1 = Some COMPLETED
 \<and> status_of (server (pause_handler finished sid1)) sid1 = Some PAUSED"
proof -
  have st: "s_status (row1\<lparr>s_endedAt := Some 1000, s_status := COMPLETED\<rparr>) = COMPLETED
      \<or> s_status (row1\<lparr>s_endedAt := Some 1000, s_status := COMPLETED\<rparr>) = FAILED"
    by simp
  have st': "s_status (row1\<lparr>s_endedAt := Some 1000, s_status := COMPLETED\<rparr>) = COMPLETED"
    by simp
  have none: "buffer finished sid1 = None"
    by (simp add: finished_simps)
  note t = terminal_session_still_served [OF sid1_nonempty finished_row st,
      where payload = "chunk 7 ''late''" and env = env1]
  from t have "buffer (server (chunk_handler env1 finished (Inr (chunk 7 ''late'')))) sid1 =
      Some (buffered finished sid1 @ [transcribed env1 (chunk 7 ''late'')])"
    by (simp add: chunk_with_text)
  then have a: "buffer (server (chunk_handler env1 finished (Inr (chunk 7 ''late'')))) sid1 =
      Some [chunk 7 ''late'']"
    by (simp add: chunk_with_text buffered_def none)
  from t none env_faults(1) have b: "emitted (stop_handler env1 finished sid1) =
      [(Room sid1, session_status PROCESSING None), (Room sid1, session_status COMPLETED None)]"
    "status_of (server (stop_handler env1 finished sid1)) sid1 = Some COMPLETED"
    "status_of (server (pause_handler finished sid1)) sid1 = Some PAUSED"
    by blast+
  from sid1_nonempty finished_row st' chunk_with_text(3) none env_faults(1) a b
  show ?thesis by blast
qed

text \<open>
  Claim C4 as stated fails: after a start and a completed stop, a late chunk is buffered
  and broadcast without any error, and a second stop broadcasts \<^verbatim>\<open>PROCESSING\<close> and
  \<^verbatim>\<open>COMPLETED\<close> again.
\<close>

theorem late_chunk_and_second_stop_counterexample:
  "status_of finished sid1 = Some COMPLETED
 \<and> buffer (server (chunk_handler env1 finished (Inr (chunk 7 ''late'')))) sid1 =
      Some [chunk 7 ''late'']
 \<and> emitted (chunk_handler env1 finished (Inr (chunk 7 ''late''))) =
      [(Room sid1, transcription_update (upd 7 ''late''))]
 \<and> unhandled (chunk_handler env1 finished (Inr (chunk 7 ''late''))) = None
 \<and> emitted (stop_handler env1 finished sid1) =
      [(Room sid1, session_status PROCESSING None), (Room sid1, session_status COMPLETED None)]
 \<and> unhandled (stop_handler env1 finished sid1) = None"
proof -
  have step: "summary_step env1 (build_transcript (buffered finished sid1)) = Inr None"
    by (simp add: summary_step_def buffered_def build_transcript_def finished_simps)
  have tx: "run_writes (fault env1) (transcriptChunks finished, summaries finished)
              (tx_writes sid1 (buffered finished sid1) None) = Inr ([], [])"
    by (simp add: env_faults tx_writes_def buffered_def finished_simps)
  note again = stop_handler_completed [OF sid1_nonempty finished_row step tx]
  have "status_of finished sid1 = Some COMPLETED"
    by (simp add: status_of_def finished_simps)
  moreover have "buffer (server (chunk_handler env1 finished (Inr (chunk 7 ''late'')))) sid1 =
      Some [chunk 7 ''late'']"
    by (simp add: chunk_handler_Inr chunk_with_text buffered_def finished_simps)
  moreover have "emitted (chunk_handler env1 finished (Inr (chunk 7 ''late''))) =
      [(Room sid1, transcription_update (upd 7 ''late''))]"
    by (simp add: chunk_handler_Inr chunk_with_text upd_def)
  ultimately show ?thesis
    by (simp add: again(6,7) chunk_handler_Inr(7))
qed

subsection \<open>Summaries\<close>

lemma summarizeTranscript_cases:
  "summarizeTranscript JSON_parse None t = Inl (Error ''Gemini API key not configured'')"
  "generateContent (summary_prompt t) = Throws e \<Longrightarrow>
     summarizeTranscript JSON_parse (Some generateContent) t = Inl e"
  "generateContent (summary_prompt t) = Responds text \<Longrightarrow>
   JSON_parse (slice text (indexOf CHR ''{'' text) (lastIndexOf CHR ''}'' text + 1)) = None \<Longrightarrow>
     summarizeTranscript JSON_parse (Some generateContent) t = Inr (fallback text)"
  "generateContent (summary_prompt t) = Responds text \<Longrightarrow>
   JSON_parse (slice text (indexOf CHR ''{'' text) (lastIndexOf CHR ''}'' text + 1)) = Some summary \<Longrightarrow>
     summarizeTranscript JSON_parse (Some generateContent) t = Inr summary"
  by (simp_all add: summarizeTranscript_def fallback_def Let_def)

lemma stop_handler_summary_throws:
  assumes "sid \<noteq> []" and "sessions s sid = Some row"
    and "build_transcript (buffered s sid) \<noteq> []"
    and "summarize env (build_transcript (buffered s sid)) = Inl e"
  shows "status_of (server (stop_handler env s sid)) sid = Some FAILED
       \<and> emitted (stop_handler env s sid) =
           [(Room sid, session_status PROCESSING None),
            (Room sid, session_error ''Failed to process summary'' (Some e))]
       \<and> summaries (server (stop_handler env s sid)) = summaries s
       \<and> transcriptChunks (server (stop_handler env s sid)) = transcriptChunks s"
proof -
  have "summary_step env (build_transcript (buffered s sid)) = Inl e"
    using assms(3,4) by (simp add: summary_step_def)
  then have "summary_step env (build_transcript (buffered s sid)) = Inl e
       \<or> (\<exists>summary. summary_step env (build_transcript (buffered s sid)) = Inr summary
        \<and> run_writes (fault env) (transcriptChunks s, summaries s)
           (tx_writes sid (buffered s sid) summary) = Inl e)"
    by simp
  from stop_handler_failed [OF assms(1,2) this] show ?thesis
    by (simp add: status_of_def)
qed

lemma env_summarize:
  "summarize env1 = summarizeTranscript empty_throws (Some echo_model)"
  "summarize env_summary_down = summarizeTranscript empty_throws (Some (\<lambda>p. Throws (Error ''503'')))"
  by (simp_all add: env1_def env_summary_down_def)

lemma echo_model_prompt: "echo_model (summary_prompt t) = Responds t"
  by (simp add: echo_model_def summary_prompt_def)

text \<open>
  Claim C8, as the code has it. For a non-empty transcript: when the summary model answers
  with a text whose part from the first \<open>{\<close> to the last \<open>}\<close> the JSON parser rejects,
  \<^verbatim>\<open>summarizeTranscript\<close> returns the degraded summary (the raw text as key points, the
  other two fields marked as not extractable), and the stop handler stores it and ends
  \<^verbatim>\<open>COMPLETED\<close> when the store succeeds. When the call of the model throws, or no model
  is configured, \<^verbatim>\<open>summarizeTranscript\<close> throws, and the stop handler sets the session
  to \<^verbatim>\<open>FAILED\<close>, broadcasts the error and stores no summary.
\<close>

theorem summarization_failure_modes:
  assumes "sid \<noteq> []" and "sessions s sid = Some row"
    and "build_transcript (buffered s sid) = t" and "t \<noteq> []"
    and "summarize env = summarizeTranscript JSON_parse summaryModel"
  shows "(\<forall>generateContent raw.
            summaryModel = Some generateContent
          \<and> generateContent (summary_prompt t) = Responds raw
          \<and> JSON_parse (slice raw (indexOf CHR ''{'' raw) (lastIndexOf CHR ''}'' raw + 1)) = None
          \<and> fault env = None \<longrightarrow>
            summarize env t =
              Inr \<lparr>keyPoints = raw, actionItems = ''Could not extract action items'',
                   decisions = ''Could not extract decisions''\<rparr>
          \<and> status_of (server (stop_handler env s sid)) sid = Some COMPLETED
          \<and> emitted (stop_handler env s sid) =
              [(Room sid, session_status PROCESSING None),
               (Room sid, session_status COMPLETED (Some (fallback raw)))]
          \<and> summaries (server (stop_handler env s sid)) =
              upsert_summary (summaries s) sid (fallback raw))
       \<and> (\<forall>generateContent e.
            summaryModel = Some generateContent
          \<and> generateContent (summary_prompt t) = Throws e \<longrightarrow>
            summarize env t = Inl e
          \<and> status_of (server (stop_handler env s sid)) sid = Some FAILED
          \<and> emitted (stop_handler env s sid) =
              [(Room sid, session_status PROCESSING None),
               (Room sid, session_error ''Failed to process summary'' (Some e))]
          \<and> summaries (server (stop_handler env s sid)) = summaries s)
       \<and> (summaryModel = None \<longrightarrow>
            status_of (server (stop_handler env s sid)) sid = Some FAILED
          \<and> emitted (stop_handler env s sid) =
              [(Room sid, session_status PROCESSING None),
               (Room sid, session_error ''Failed to process summary''
                  (Some (Error ''Gemini API key not configured'')))]
          \<and> summaries (server (stop_handler env s sid)) = summaries s)"
proof (intro conjI allI impI)
  fix generateContent raw
  assume h: "summaryModel = Some generateContent
          \<and> generateContent (summary_prompt t) = Responds raw
          \<and> JSON_parse (slice raw (indexOf CHR ''{'' raw) (lastIndexOf CHR ''}'' raw + 1)) = None
          \<and> fault env = None"
  then have sm: "summarize env t = Inr (fallback raw)"
    using assms(5) by (simp add: summarizeTranscript_cases(3))
  then have step: "summary_step env (build_transcript (buffered s sid)) = Inr (Some (fallback raw))"
    using assms(3,4) by (simp add: summary_step_def)
  have tx: "run_writes (fault env) (transcriptChunks s, summaries s)
              (tx_writes sid (buffered s sid) (Some (fallback raw)))
            = Inr (foldl upsert_chunk (transcriptChunks s) (buffered s sid),
                   upsert_summary (summaries s) sid (fallback raw))"
    using h by (simp add: run_writes_None foldl_tx_writes)
  note ok = stop_handler_completed [OF assms(1,2) step tx]
  show "summarize env t =
              Inr \<lparr>keyPoints = raw, actionItems = ''Could not extract action items'',
                   decisions = ''Could not extract decisions''\<rparr>"
    using sm by (simp add: fallback_def)
  show "status_of (server (stop_handler env s sid)) sid = Some COMPLETED"
    by (simp add: status_of_def ok(3))
  show "emitted (stop_handler env s sid) =
              [(Room sid, session_status PROCESSING None),
               (Room sid, session_status COMPLETED (Some (fallback raw)))]"
    by (rule ok(6))
  show "summaries (server (stop_handler env s sid)) =
              upsert_summary (summaries s) sid (fallback raw)"
    by (rule ok(5))
next
  fix generateContent e
  assume h: "summaryModel = Some generateContent
          \<and> generateContent (summary_prompt t) = Throws e"
  then have sm: "summarize env t = Inl e"
    using assms(5) by (simp add: summarizeTranscript_cases(2))
  with assms(3,4) have "build_transcript (buffered s sid) \<noteq> []"
    "summarize env (build_transcript (buffered s sid)) = Inl e"
    by simp_all
  note ko = stop_handler_summary_throws [OF assms(1,2) this]
  show "summarize env t = Inl e" by (rule sm)
  show "status_of (server (stop_handler env s sid)) sid = Some FAILED"
    using ko by simp
  show "emitted (stop_handler env s sid) =
              [(Room sid, session_status PROCESSING None),
               (Room sid, session_error ''Failed to process summary'' (Some e))]"
    using ko by simp
  show "summaries (server (stop_handler env s sid)) = summaries s"
    using ko by simp
next
  assume h: "summaryModel = None"
  then have sm: "summarize env t = Inl (Error ''Gemini API key not configured'')"
    using assms(5) by (simp add: summarizeTranscript_cases(1))
  with assms(3,4) have "build_transcript (buffered s sid) \<noteq> []"
    "summarize env (build_transcript (buffered s sid)) = Inl (Error ''Gemini API key not configured'')"
    by simp_all
  note ko = stop_handler_summary_throws [OF assms(1,2) this]
  show "status_of (server (stop_handler env s sid)) sid = Some FAILED"
    using ko by simp
  show "emitted (stop_handler env s sid) =
              [(Room sid, session_status PROCESSING None),
               (Room sid, session_error ''Failed to process summary''
                  (Some (Error ''Gemini API key not configured'')))]"
    using ko by simp
  show "summaries (server (stop_handler env s sid)) = summaries s"
    using ko by simp
qed

theorem summarization_failure_modes_witness:
  "sid1 \<noteq> [] \<and> sessions recorded sid1 = Some row1
 \<and> build_transcript (buffered recorded sid1) = hello_world \<and> hello_world \<noteq> []
 \<and> summarize env1 = summarizeTranscript empty_throws (Some echo_model)
 \<and> echo_model (summary_prompt hello_world) = Responds hello_world
 \<and> empty_throws (slice hello_world (indexOf CHR ''{'' hello_world)
      (lastIndexOf CHR ''}'' hello_world + 1)) = None
 \<and> fault env1 = None
 \<and> status_of (server (stop_handler env1 recorded sid1)) sid1 = Some COMPLETED
 \<and> summaries (server (stop_handler env1 recorded sid1)) =
      [\<lparr>m_sessionId = sid1, m_summary = fallback hello_world\<rparr>]
 \<and> summarize env_summary_down =
      summarizeTranscript empty_throws (Some (\<lambda>p. Throws (Error ''503'')))
 \<and> status_of (server (stop_handler env_summary_down recorded sid1)) sid1 = Some FAILED
 \<and> summaries (server (stop_handler env_summary_down recorded sid1)) = []"
proof -
  have row: "sessions recorded sid1 = Some row1"
    by (simp add: recorded_simps)
  have parse: "empty_throws (slice hello_world (indexOf CHR ''{'' hello_world)
      (lastIndexOf CHR ''}'' hello_world + 1)) = None"
    by (simp add: empty_throws_def)
  note up = summarization_failure_modes [OF sid1_nonempty row recorded_transcript
      hello_world_nonempty env_summarize(1)]
  note down = summarization_failure_modes [OF sid1_nonempty row recorded_transcript
      hello_world_nonempty env_summarize(2)]
  from up echo_model_prompt [of hello_world] parse env_faults(1)
  have a: "status_of (server (stop_handler env1 recorded sid1)) sid1 = Some COMPLETED"
    "summaries (server (stop_handler env1 recorded sid1)) =
       upsert_summary (summaries recorded) sid1 (fallback hello_world)"
    by blast+
  from a(2) have a2: "summaries (server (stop_handler env1 recorded sid1)) =
      [\<lparr>m_sessionId = sid1, m_summary = fallback hello_world\<rparr>]"
    by (simp add: recorded_simps upsert_summary_def)
  have thr: "(\<lambda>p. Throws (Error ''503'')) (summary_prompt hello_world) = Throws (Error ''503'')"
    by simp
  from down thr
  have b: "status_of (server (stop_handler env_summary_down recorded sid1)) sid1 = Some FAILED"
    "summaries (server (stop_handler env_summary_down recorded sid1)) = summaries recorded"
    by blast+
  from b(2) have b2: "summaries (server (stop_handler env_summary_down recorded sid1)) = []"
    by (simp add: recorded_simps)
  from sid1_nonempty row recorded_transcript hello_world_nonempty env_summarize
    echo_model_prompt [of hello_world] parse env_faults(1) a(1) a2 b(1) b2
  show ?thesis by blast
qed

text \<open>
  Claim C8 as stated fails: with two chunks buffered and a summary model whose call
  throws, the stop ends with the session \<^verbatim>\<open>FAILED\<close> and an error event.
\<close>

theorem summary_model_error_fails_session_counterexample:
  "summarize env_summary_down (build_transcript (buffered recorded sid1)) = Inl (Error ''503'')
 \<and> status_of (server (stop_handler env_summary_down recorded sid1)) sid1 = Some FAILED
 \<and> emitted (stop_handler env_summary_down recorded sid1) =
      [(Room sid1, session_status PROCESSING None),
       (Room sid1, session_error ''Failed to process summary'' (Some (Error ''503'')))]"
proof -
  have row: "sessions recorded sid1 = Some row1"
    by (simp add: recorded_simps)
  have ne: "build_transcript (buffered recorded sid1) \<noteq> []"
    by (simp add: recorded_transcript hello_world_nonempty)
  have thr: "summarize env_summary_down (build_transcript (buffered recorded sid1)) = Inl (Error ''503'')"
    by (simp add: env_summarize summarizeTranscript_cases)
  from stop_handler_summary_throws [OF sid1_nonempty row ne thr] thr
  show ?thesis by simp
qed

subsection \<open>The transcript\<close>

lemma run_chunk_events:
  "buffered (fst (run (s, out) (chunk_events deliveries))) sid =
     buffered s sid @
       map (\<lambda>(env, payload). transcribed env payload)
         (filter (\<lambda>(env, payload). sessionId payload = sid) deliveries)"
proof (induction deliveries arbitrary: s out)
  case Nil
  then show ?case by (simp add: chunk_events_def)
next
  case (Cons d deliveries)
  obtain env payload where d: "d = (env, payload)" by (cases d)
  have "run (s, out) (chunk_events (d # deliveries)) =
      run (server (chunk_handler env s (Inr payload)),
           out @ emitted (chunk_handler env s (Inr payload))) (chunk_events deliveries)"
    by (simp add: chunk_events_def d Let_def)
  then show ?case
    using Cons.IH [of "server (chunk_handler env s (Inr payload))"
        "out @ emitted (chunk_handler env s (Inr payload))"]
    by (simp add: d buffered_chunk_handler)
qed

lemma build_transcript_sorted:
  "sorted (map sequence chunks) \<Longrightarrow> build_transcript (sort_key sequence chunks) = build_transcript chunks"
  by (simp add: sort_key_id_if_sorted)

lemma arrived_312_simps:
  "buffered arrived_312 sid1 = [chunk 3 ''c3'', chunk 1 ''c1'', chunk 2 ''c2'']"
  "sessions arrived_312 sid1 = Some row1"
  by (simp_all add: arrived_312_def chunk_handler_Inr chunk_with_text buffered_def started_simps Let_def)

lemma arrived_312_transcripts:
  "build_transcript (buffered arrived_312 sid1) = c312"
  "build_transcript (sort_key sequence (buffered arrived_312 sid1)) = c123"
  "c312 \<noteq> c123" "c312 \<noteq> []"
  by (simp_all add: arrived_312_simps build_transcript_def c312_def c123_def)
     (simp_all add: chunk_def text_or_empty_def)

text \<open>
  Claim C1, as the code has it. The buffer of a session holds the delivered chunks in the
  order of their arrival, and the transcript built by the stop handler is the texts of
  the buffered chunks in that order, joined by newlines; it is this transcript that the
  summary gateway is called with. Where the buffer is in ascending order of sequence
  numbers, the transcript is the concatenation in sequence order.
\<close>

theorem finalized_transcript_in_arrival_order:
  "build_transcript (buffered (fst (run (s, out) (chunk_events deliveries))) sid) =
     join [nl] (map (\<lambda>chunk. text_or_empty (chunkText chunk))
       (buffered s sid @
          map (\<lambda>(env, payload). transcribed env payload)
            (filter (\<lambda>(env, payload). sessionId payload = sid) deliveries)))
 \<and> (sorted (map sequence (buffered s sid)) \<longrightarrow>
      build_transcript (sort_key sequence (buffered s sid)) = build_transcript (buffered s sid))
 \<and> (sid \<noteq> [] \<and> sessions s sid = Some row \<and> fault env = None
      \<and> build_transcript (buffered s sid) \<noteq> []
      \<and> summarize env (build_transcript (buffered s sid)) = Inr sm \<longrightarrow>
      emitted (stop_handler env s sid) =
        [(Room sid, session_status PROCESSING None),
         (Room sid, session_status COMPLETED (Some sm))])"
proof (intro conjI impI)
  show "build_transcript (buffered (fst (run (s, out) (chunk_events deliveries))) sid) =
     join [nl] (map (\<lambda>chunk. text_or_empty (chunkText chunk))
       (buffered s sid @
          map (\<lambda>(env, payload). transcribed env payload)
            (filter (\<lambda>(env, payload). sessionId payload = sid) deliveries)))"
    by (simp add: run_chunk_events build_transcript_def)
next
  assume "sorted (map sequence (buffered s sid))"
  then show "build_transcript (sort_key sequence (buffered s sid)) = build_transcript (buffered s sid)"
    by (rule build_transcript_sorted)
next
  assume h: "sid \<noteq> [] \<and> sessions s sid = Some row \<and> fault env = None
      \<and> build_transcript (buffered s sid) \<noteq> []
      \<and> summarize env (build_transcript (buffered s sid)) = Inr sm"
  then have step: "summary_step env (build_transcript (buffered s sid)) = Inr (Some sm)"
    by (simp add: summary_step_def)
  have tx: "run_writes (fault env) (transcriptChunks s, summaries s)
              (tx_writes sid (buffered s sid) (Some sm))
            = Inr (foldl upsert_chunk (transcriptChunks s) (buffered s sid),
                   upsert_summary (summaries s) sid sm)"
    using h by (simp add: run_writes_None foldl_tx_writes)
  from h have a: "sid \<noteq> []" and b: "sessions s sid = Some row" by simp_all
  from stop_handler_completed(6) [OF a b step tx]
  show "emitted (stop_handler env s sid) =
        [(Room sid, session_status PROCESSING None),
         (Room sid, session_status COMPLETED (Some sm))]" .
qed

theorem finalized_transcript_in_arrival_order_witness:
  "build_transcript (buffered (fst (run (started, [])
       (chunk_events [(env1, chunk 3 ''c3''), (env1, chunk 1 ''c1''), (env1, chunk 2 ''c2'')]))) sid1) = c312
 \<and> sorted (map sequence (buffered recorded sid1))
 \<and> build_transcript (sort_key sequence (buffered recorded sid1)) = hello_world
 \<and> sid1 \<noteq> [] \<and> sessions recorded sid1 = Some row1 \<and> fault env1 = None
 \<and> build_transcript (buffered recorded sid1) \<noteq> []
 \<and> summarize env1 (build_transcript (buffered recorded sid1)) = Inr (fallback hello_world)
 \<and> emitted (stop_handler env1 recorded sid1) =
      [(Room sid1, session_status PROCESSING None),
       (Room sid1, session_status COMPLETED (Some (fallback hello_world)))]"
proof -
  note t1 = finalized_transcript_in_arrival_order [of started "[]"
      "[(env1, chunk 3 ''c3''), (env1, chunk 1 ''c1''), (env1, chunk 2 ''c2'')]" sid1]
  from t1 have a: "build_transcript (buffered (fst (run (started, [])
       (chunk_events [(env1, chunk 3 ''c3''), (env1, chunk 1 ''c1''), (env1, chunk 2 ''c2'')]))) sid1) = c312"
    by (simp add: chunk_with_text buffered_def started_simps c312_def) (simp add: chunk_def text_or_empty_def)
  note t2 = finalized_transcript_in_arrival_order [of recorded "[]" "[]" sid1 row1 env1 "fallback hello_world"]
  have srt: "sorted (map sequence (buffered recorded sid1))"
    by (simp add: recorded_buffered chunk_with_text)
  have row: "sessions recorded sid1 = Some row1"
    by (simp add: recorded_simps)
  have ne: "build_transcript (buffered recorded sid1) \<noteq> []"
    by (simp add: recorded_transcript hello_world_nonempty)
  have sm: "summarize env1 (build_transcript (buffered recorded sid1)) = Inr (fallback hello_world)"
    by (simp add: recorded_transcript env_summarize echo_summary)
  from t2 srt have b: "build_transcript (sort_key sequence (buffered recorded sid1)) = hello_world"
    by (simp add: recorded_transcript)
  from t2 sid1_nonempty row env_faults(1) ne sm
  have c: "emitted (stop_handler env1 recorded sid1) =
      [(Room sid1, session_status PROCESSING None),
       (Room sid1, session_status COMPLETED (Some (fallback hello_world)))]"
    by blast
  from a srt b sid1_nonempty row env_faults(1) ne sm c show ?thesis by blast
qed

text \<open>
  Claim C1 as stated fails: for chunks that arrive with the sequence numbers 3, 1, 2 the
  transcript is the concatenation of chunk 3, chunk 1, chunk 2, which the summary model
  receives, and not that of chunk 1, chunk 2, chunk 3.
\<close>

theorem arrival_312_transcript_counterexample:
  "map sequence (buffered arrived_312 sid1) = [3, 1, 2]
 \<and> build_transcript (buffered arrived_312 sid1) = c312
 \<and> build_transcript (sort_key sequence (buffered arrived_312 sid1)) = c123
 \<and> c312 \<noteq> c123
 \<and> emitted (stop_handler env1 arrived_312 sid1) =
      [(Room sid1, session_status PROCESSING None),
       (Room sid1, session_status COMPLETED (Some (fallback c312)))]"
proof -
  have step: "summary_step env1 (build_transcript (buffered arrived_312 sid1)) = Inr (Some (fallback c312))"
    by (simp add: summary_step_def arrived_312_transcripts env_summarize echo_summary)
  obtain cs ss where tx: "run_writes (fault env1) (transcriptChunks arrived_312, summaries arrived_312)
      (tx_writes sid1 (buffered arrived_312 sid1) (Some (fallback c312))) = Inr (cs, ss)"
    by (simp add: env_faults run_writes_None foldl_tx_writes)
  note ok = stop_handler_completed(6) [OF sid1_nonempty arrived_312_simps(2) step tx]
  have "map sequence (buffered arrived_312 sid1) = [3, 1, 2]"
    by (simp add: arrived_312_simps chunk_with_text)
  with ok arrived_312_transcripts show ?thesis by simp
qed

subsection \<open>Re-delivery and the rows of the store\<close>

lemma same_key_iff: "same_key payload row \<longleftrightarrow> row_key row = chunk_key payload"
  by (auto simp: same_key_def row_key_def chunk_key_def)

lemma list_ex_same_key: "list_ex (same_key payload) rows \<longleftrightarrow> chunk_key payload \<in> row_key ` set rows"
  unfolding list_ex_iff same_key_iff image_iff by metis

lemma row_key_written:
  "row_key (chunk_update payload row) = row_key row"
  "row_key (chunk_create payload) = chunk_key payload"
  by (simp_all add: row_key_def chunk_key_def chunk_update_def chunk_create_def)

lemma map_row_key_upsert:
  "map row_key (upsert_chunk rows payload) =
     (if chunk_key payload \<in> row_key ` set rows then map row_key rows
      else map row_key rows @ [chunk_key payload])"
proof -
  have "map row_key (map (\<lambda>row. if same_key payload row then chunk_update payload row else row) rows)
      = map row_key rows"
    by (induction rows) (simp_all add: row_key_written)
  then show ?thesis
    by (simp add: upsert_chunk_def list_ex_same_key row_key_written)
qed

lemma distinct_upsert:
  "distinct (map row_key rows) \<Longrightarrow> distinct (map row_key (upsert_chunk rows payload))"
  by (simp add: map_row_key_upsert)

lemma keys_upsert:
  "row_key ` set (upsert_chunk rows payload) = insert (chunk_key payload) (row_key ` set rows)"
proof -
  have "set (map row_key (upsert_chunk rows payload)) = insert (chunk_key payload) (set (map row_key rows))"
    by (auto simp: map_row_key_upsert)
  then show ?thesis by simp
qed

lemma distinct_foldl_upsert:
  "distinct (map row_key rows) \<Longrightarrow> distinct (map row_key (foldl upsert_chunk rows chunks))"
  by (induction chunks arbitrary: rows) (simp_all add: distinct_upsert)

lemma keys_foldl_upsert:
  "row_key ` set (foldl upsert_chunk rows chunks) = row_key ` set rows \<union> chunk_key ` set chunks"
  by (induction chunks arbitrary: rows) (auto simp: keys_upsert)

lemma upsert_writes:
  assumes "r \<in> set (upsert_chunk rows payload)" and "row_key r = chunk_key payload"
  shows "r_text r = text_or_empty (chunkText payload) \<and> r_speakerTag r = speakerTag payload
       \<and> (confidence payload \<noteq> None \<longrightarrow> r_confidence r = confidence payload)"
proof (cases "list_ex (same_key payload) rows")
  case True
  with assms(1) obtain old where "old \<in> set rows"
    and r: "r = (if same_key payload old then chunk_update payload old else old)"
    by (auto simp: upsert_chunk_def)
  show ?thesis
  proof (cases "same_key payload old")
    case True
    with r show ?thesis
      by (auto simp: chunk_update_def)
  next
    case False
    with r assms(2) show ?thesis
      by (simp add: same_key_iff)
  qed
next
  case False
  with assms(1) have "r \<in> set rows \<or> r = chunk_create payload"
    by (auto simp: upsert_chunk_def)
  moreover have "r \<notin> set rows"
    using False assms(2) by (metis imageI list_ex_same_key)
  ultimately show ?thesis
    by (auto simp: chunk_create_def)
qed

lemma upsert_keeps_others:
  assumes "r \<in> set (upsert_chunk rows payload)" and "row_key r \<noteq> chunk_key payload"
  shows "r \<in> set rows"
proof (cases "list_ex (same_key payload) rows")
  case True
  with assms(1) obtain old where old: "old \<in> set rows"
    and r: "r = (if same_key payload old then chunk_update payload old else old)"
    by (auto simp: upsert_chunk_def)
  have "\<not> same_key payload old"
  proof
    assume same: "same_key payload old"
    with r have "row_key r = row_key old" by (simp add: row_key_written)
    with same assms(2) show False by (simp add: same_key_iff)
  qed
  with r old show ?thesis by simp
next
  case False
  with assms(1) have "r \<in> set rows \<or> r = chunk_create payload"
    by (auto simp: upsert_chunk_def)
  with assms(2) show ?thesis
    by (auto simp: row_key_written)
qed

lemma foldl_upsert_latest:
  assumes "chunk_key c \<notin> chunk_key ` set ys"
    and "r \<in> set (foldl upsert_chunk rows (xs @ c # ys))" and "row_key r = chunk_key c"
  shows "r_text r = text_or_empty (chunkText c) \<and> r_speakerTag r = speakerTag c
       \<and> (confidence c \<noteq> None \<longrightarrow> r_confidence r = confidence c)"
  using assms
proof (induction ys arbitrary: r rule: rev_induct)
  case Nil
  then have "r \<in> set (upsert_chunk (foldl upsert_chunk rows xs) c)" by simp
  from upsert_writes [OF this Nil.prems(3)] show ?case .
next
  case (snoc y ys)
  from snoc.prems(1) have other: "chunk_key c \<noteq> chunk_key y" and rest: "chunk_key c \<notin> chunk_key ` set ys"
    by auto
  from snoc.prems(2) have "r \<in> set (upsert_chunk (foldl upsert_chunk rows (xs @ c # ys)) y)"
    by simp
  from upsert_keeps_others [OF this] snoc.prems(3) other
  have "r \<in> set (foldl upsert_chunk rows (xs @ c # ys))" by simp
  from snoc.IH [OF rest this snoc.prems(3)] show ?case .
qed

lemma distinct_key_unique:
  assumes "distinct (map row_key rows)" and "r \<in> set rows" and "r' \<in> set rows"
    and "row_key r = row_key r'"
  shows "r = r'"
  using assms by (meson distinct_map inj_onD)

lemma redelivered_simps:
  "buffered redelivered sid1 = [chunk 1 ''a'', chunk 1 ''b'']"
  "sessions redelivered sid1 = Some row1"
  "transcriptChunks redelivered = []"
  by (simp_all add: redelivered_def chunk_events_def chunk_handler_Inr chunk_with_text
      buffered_def started_simps Let_def)

lemma redelivered_transcript: "build_transcript (buffered redelivered sid1) = a_b" "a_b \<noteq> []"
  by (simp_all add: redelivered_simps build_transcript_def a_b_def)
     (simp add: chunk_def text_or_empty_def)

text \<open>
  Claim C2, as the code has it. A delivery is always appended to the buffer, also when a
  chunk with its sequence number is buffered already. The store is different: the
  finalization writes the buffered chunks, in the order of the buffer, by upserts on the
  key of session id and sequence number. So after a finalization that succeeds, from a
  table with no key twice, the table has no key twice, its keys are the old ones and
  those of the buffered chunks, and for each key of the buffer there is exactly one row,
  which carries the text and the speaker tag of the last delivery with that key, and its
  confidence when it has one.
\<close>

theorem redelivery_appends_store_keeps_latest:
  assumes "sid \<noteq> []" and "sessions s sid = Some row"
    and "summary_step env (build_transcript (buffered s sid)) = Inr summary"
    and "fault env = None"
    and "distinct (map row_key (transcriptChunks s))"
  shows "buffered (server (chunk_handler env' s (Inr payload))) (sessionId payload) =
           buffered s (sessionId payload) @ [transcribed env' payload]
       \<and> distinct (map row_key (transcriptChunks (server (stop_handler env s sid))))
       \<and> row_key ` set (transcriptChunks (server (stop_handler env s sid))) =
           row_key ` set (transcriptChunks s) \<union> chunk_key ` set (buffered s sid)
       \<and> (\<forall>xs c ys. buffered s sid = xs @ c # ys \<and> chunk_key c \<notin> chunk_key ` set ys \<longrightarrow>
            (\<exists>!r. r \<in> set (transcriptChunks (server (stop_handler env s sid)))
                  \<and> row_key r = chunk_key c)
          \<and> (\<forall>r \<in> set (transcriptChunks (server (stop_handler env s sid))).
                row_key r = chunk_key c \<longrightarrow>
                  r_text r = text_or_empty (chunkText c) \<and> r_speakerTag r = speakerTag c
                \<and> (confidence c \<noteq> None \<longrightarrow> r_confidence r = confidence c)))"
proof -
  let ?rows = "foldl upsert_chunk (transcriptChunks s) (buffered s sid)"
  have tx: "run_writes (fault env) (transcriptChunks s, summaries s)
              (tx_writes sid (buffered s sid) summary)
            = Inr (?rows, case summary of None \<Rightarrow> summaries s
                          | Some sm \<Rightarrow> upsert_summary (summaries s) sid sm)"
    using assms(4) by (simp add: run_writes_None foldl_tx_writes)
  have rows: "transcriptChunks (server (stop_handler env s sid)) = ?rows"
    by (rule stop_handler_completed(4) [OF assms(1,2,3) tx])
  have d: "distinct (map row_key ?rows)"
    using assms(5) by (rule distinct_foldl_upsert)
  have k: "row_key ` set ?rows = row_key ` set (transcriptChunks s) \<union> chunk_key ` set (buffered s sid)"
    by (rule keys_foldl_upsert)
  have latest: "\<forall>xs c ys. buffered s sid = xs @ c # ys \<and> chunk_key c \<notin> chunk_key ` set ys \<longrightarrow>
            (\<exists>!r. r \<in> set ?rows \<and> row_key r = chunk_key c)
          \<and> (\<forall>r \<in> set ?rows. row_key r = chunk_key c \<longrightarrow>
                  r_text r = text_or_empty (chunkText c) \<and> r_speakerTag r = speakerTag c
                \<and> (confidence c \<noteq> None \<longrightarrow> r_confidence r = confidence c))"
  proof (intro allI impI)
    fix xs c ys
    assume h: "buffered s sid = xs @ c # ys \<and> chunk_key c \<notin> chunk_key ` set ys"
    then have "c \<in> set (buffered s sid)" by simp
    then have "chunk_key c \<in> row_key ` set ?rows"
      unfolding k by blast
    then obtain r0 where r0: "r0 \<in> set ?rows" "row_key r0 = chunk_key c" by auto
    have uniq: "\<exists>!r. r \<in> set ?rows \<and> row_key r = chunk_key c"
    proof (rule ex1I [of _ r0])
      show "r0 \<in> set ?rows \<and> row_key r0 = chunk_key c" using r0 by simp
    next
      fix r assume "r \<in> set ?rows \<and> row_key r = chunk_key c"
      with r0 show "r = r0"
        using distinct_key_unique [OF d, of r r0] by simp
    qed
    have vals: "\<forall>r \<in> set ?rows. row_key r = chunk_key c \<longrightarrow>
                  r_text r = text_or_empty (chunkText c) \<and> r_speakerTag r = speakerTag c
                \<and> (confidence c \<noteq> None \<longrightarrow> r_confidence r = confidence c)"
    proof (intro ballI impI)
      fix r assume r: "r \<in> set ?rows" and key: "row_key r = chunk_key c"
      from h r have mem: "r \<in> set (foldl upsert_chunk (transcriptChunks s) (xs @ c # ys))"
        by simp
      from h have fresh: "chunk_key c \<notin> chunk_key ` set ys" by simp
      from foldl_upsert_latest [OF fresh mem key]
      show "r_text r = text_or_empty (chunkText c) \<and> r_speakerTag r = speakerTag c
                \<and> (confidence c \<noteq> None \<longrightarrow> r_confidence r = confidence c)" .
    qed
    from uniq vals
    show "(\<exists>!r. r \<in> set ?rows \<and> row_key r = chunk_key c)
          \<and> (\<forall>r \<in> set ?rows. row_key r = chunk_key c \<longrightarrow>
                  r_text r = text_or_empty (chunkText c) \<and> r_speakerTag r = speakerTag c
                \<and> (confidence c \<noteq> None \<longrightarrow> r_confidence r = confidence c))"
      by simp
  qed
  have app: "buffered (server (chunk_handler env' s (Inr payload))) (sessionId payload) =
           buffered s (sessionId payload) @ [transcribed env' payload]"
    by (simp add: buffered_chunk_handler)
  from app d k latest show ?thesis
    unfolding rows by blast
qed

theorem redelivery_appends_store_keeps_latest_witness:
  "sid1 \<noteq> [] \<and> sessions redelivered sid1 = Some row1
 \<and> summary_step env1 (build_transcript (buffered redelivered sid1)) = Inr (Some (fallback a_b))
 \<and> fault env1 = None
 \<and> distinct (map row_key (transcriptChunks redelivered))
 \<and> buffered redelivered sid1 = [chunk 1 ''a''] @ chunk 1 ''b'' # []
 \<and> chunk_key (chunk 1 ''b'') \<notin> chunk_key ` set []
 \<and> distinct (map row_key (transcriptChunks (server (stop_handler env1 redelivered sid1))))
 \<and> row_key ` set (transcriptChunks (server (stop_handler env1 redelivered sid1))) = {(sid1, 1)}
 \<and> r_text ` set (transcriptChunks (server (stop_handler env1 redelivered sid1))) = {''b''}"
proof -
  have step: "summary_step env1 (build_transcript (buffered redelivered sid1)) = Inr (Some (fallback a_b))"
    by (simp add: summary_step_def redelivered_transcript env_summarize echo_summary)
  have d: "distinct (map row_key (transcriptChunks redelivered))"
    by (simp add: redelivered_simps)
  have split: "buffered redelivered sid1 = [chunk 1 ''a''] @ chunk 1 ''b'' # []"
    by (simp add: redelivered_simps)
  have last: "chunk_key (chunk 1 ''b'') \<notin> chunk_key ` set []"
    by simp
  note t = redelivery_appends_store_keeps_latest
    [OF sid1_nonempty redelivered_simps(2) step env_faults(1) d, of env1 "chunk 1 ''b''"]
  from t have a: "distinct (map row_key (transcriptChunks (server (stop_handler env1 redelivered sid1))))"
    by blast
  from t have "row_key ` set (transcriptChunks (server (stop_handler env1 redelivered sid1))) =
      row_key ` set (transcriptChunks redelivered) \<union> chunk_key ` set (buffered redelivered sid1)"
    by blast
  then have b: "row_key ` set (transcriptChunks (server (stop_handler env1 redelivered sid1))) = {(sid1, 1)}"
    by (simp add: redelivered_simps chunk_key_def chunk_with_text)
  from t split last
  have "\<forall>r \<in> set (transcriptChunks (server (stop_handler env1 redelivered sid1))).
      row_key r = chunk_key (chunk 1 ''b'') \<longrightarrow> r_text r = text_or_empty (chunkText (chunk 1 ''b''))"
    by blast
  moreover have "\<forall>r \<in> set (transcriptChunks (server (stop_handler env1 redelivered sid1))).
      row_key r = chunk_key (chunk 1 ''b'')"
    using b by (auto simp: chunk_key_def chunk_with_text)
  ultimately have c: "\<forall>r \<in> set (transcriptChunks (server (stop_handler env1 redelivered sid1))). r_text r = ''b''"
    by (simp add: chunk_def text_or_empty_def)
  have "(sid1, 1) \<in> row_key ` set (transcriptChunks (server (stop_handler env1 redelivered sid1)))"
    by (simp add: b)
  then obtain r0 where r0: "r0 \<in> set (transcriptChunks (server (stop_handler env1 redelivered sid1)))"
    by blast
  have e: "r_text ` set (transcriptChunks (server (stop_handler env1 redelivered sid1))) = {''b''}"
  proof (intro equalityI subsetI)
    fix x assume "x \<in> r_text ` set (transcriptChunks (server (stop_handler env1 redelivered sid1)))"
    with c show "x \<in> {''b''}" by auto
  next
    fix x assume "x \<in> {''b''}"
    with c r0 have "x = r_text r0" by simp
    with r0 show "x \<in> r_text ` set (transcriptChunks (server (stop_handler env1 redelivered sid1)))"
      by blast
  qed
  from sid1_nonempty redelivered_simps(2) step env_faults(1) d split last a b e
  show ?thesis by blast
qed

text \<open>
  Claim C2 as stated fails in the buffer: after two deliveries of the sequence number 1
  the buffer holds two chunks with that number, the first one not replaced, and the
  transcript built from it has both texts.
\<close>

theorem redelivered_chunk_buffered_twice_counterexample:
  "map sequence (buffered redelivered sid1) = [1, 1]
 \<and> map chunkText (buffered redelivered sid1) = [Some ''a'', Some ''b'']
 \<and> \<not> distinct (map sequence (buffered redelivered sid1))
 \<and> build_transcript (buffered redelivered sid1) = a_b"
proof -
  have "map sequence (buffered redelivered sid1) = [1, 1]"
    by (simp add: redelivered_simps chunk_with_text)
  moreover have "map chunkText (buffered redelivered sid1) = [Some ''a'', Some ''b'']"
    by (simp add: redelivered_simps) (simp add: chunk_def)
  ultimately show ?thesis
    using redelivered_transcript(1) by simp
qed

end
